theory Spec2Isabelle
  imports Complex_Main "HOL-Library.Multiset" "HOL-Library.Code_Target_Nat"
begin

section \<open>Text\<close>

text \<open>
  The location resolver, the rent fetcher and its route split, trim and match text that may
  hold any character (a request parameter, a column of the crosswalk table, a field of the
  feature service's answer): there a string is the list of its Unicode code points, and
  \<open>str\<close> gives the code points of a literal.
\<close>

type_synonym ustring = "nat list"

definition str :: "string \<Rightarrow> ustring" where
  "str s = map of_char s"

section \<open>Result records of the fetchers\<close>

text \<open>
  Numbers are real numbers; an optional field is \<open>None\<close> when it is \<open>undefined\<close>.  Field names
  that several records share are written with the record's name in front.
\<close>

record HUDFairMarketRent =
  zipCode :: ustring
  countyName :: ustring
  stateName :: ustring
  stateCode :: ustring
  metroName :: ustring
  metroCode :: "ustring option"
  year :: nat
  areaName :: ustring
  efficiency :: real
  oneBedroom :: real
  twoBedroom :: real
  threeBedroom :: real
  fourBedroom :: real
  isSmallAreaFMR :: bool

text \<open>The message of an \<open>Error\<close> thrown on the way to a rent record.\<close>

datatype errorMessage =
    InvalidZipFormat ustring
  | ZipNotFound ustring
  | NoFmrData ustring
  | HudApiReturned nat
  | HudApiTimeout
  | FetchFailure

text \<open>An element of the list \<open>fetchMultipleFairMarketRents\<close> returns.\<close>

record FMRBatchItem =
  zipCode :: ustring
  data :: "HUDFairMarketRent option"
  error :: "errorMessage option"

record EnergyPrices =
  stateCode :: string
  stateName :: string
  year :: nat
  month :: nat
  electricityPrice :: "real option"
  naturalGasPrice :: "real option"
  gasolinePrice :: "real option"
  electricityNationalAvg :: real
  naturalGasNationalAvg :: "real option"
  gasolineNationalAvg :: "real option"
  electricityIndex :: "real option"
  naturalGasIndex :: "real option"
  gasolineIndex :: "real option"


section \<open>Rate limiter (lib/api/rate-limit.ts)\<close>

text \<open>
  Times are milliseconds since the epoch as \<open>Date.now()\<close> returns them; counts and limits
  are the integers the configuration holds.  The module-level \<open>Map\<close> is passed in and
  returned.
\<close>

record RateLimitEntry =
  count :: int
  resetTime :: int

record RateLimitConfig =
  windowMs :: int
  maxRequests :: int

record RateLimitResult =
  allowed :: bool
  remaining :: int
  resultResetTime :: int
  retryAfter :: "int option"

type_synonym rateLimitStore = "string \<rightharpoonup> RateLimitEntry"

text \<open>\<open>Math.ceil(x / 1000)\<close> on an integer \<open>x\<close>.\<close>

definition ceilDiv1000 :: "int \<Rightarrow> int" where
  "ceilDiv1000 x = - ((- x) div 1000)"

definition freshWindow :: "int \<Rightarrow> string \<Rightarrow> RateLimitConfig \<Rightarrow> rateLimitStore
    \<Rightarrow> RateLimitResult \<times> rateLimitStore" where
  "freshWindow now identifier config store =
     (\<lparr>allowed = True, remaining = maxRequests config - 1,
       resultResetTime = now + windowMs config, retryAfter = None\<rparr>,
      store(identifier \<mapsto> \<lparr>count = 1, resetTime = now + windowMs config\<rparr>))"

definition checkRateLimit :: "int \<Rightarrow> string \<Rightarrow> RateLimitConfig \<Rightarrow> rateLimitStore
    \<Rightarrow> RateLimitResult \<times> rateLimitStore" where
  "checkRateLimit now identifier config store =
     (case store identifier of
        None \<Rightarrow> freshWindow now identifier config store
      | Some entry \<Rightarrow>
          if resetTime entry < now then freshWindow now identifier config store
          else if count entry \<ge> maxRequests config then
            (\<lparr>allowed = False, remaining = 0, resultResetTime = resetTime entry,
              retryAfter = Some (ceilDiv1000 (resetTime entry - now))\<rparr>, store)
          else
            (\<lparr>allowed = True, remaining = maxRequests config - (count entry + 1),
              resultResetTime = resetTime entry, retryAfter = None\<rparr>,
             store(identifier \<mapsto> entry\<lparr>count := count entry + 1\<rparr>)))"

text \<open>A sequence of checks for one identifier, at the given clock readings, in order.\<close>

fun checkRateLimits :: "int list \<Rightarrow> string \<Rightarrow> RateLimitConfig \<Rightarrow> rateLimitStore
    \<Rightarrow> RateLimitResult list \<times> rateLimitStore" where
  "checkRateLimits [] identifier config store = ([], store)"
| "checkRateLimits (now # ts) identifier config store =
     (let (r, store') = checkRateLimit now identifier config store;
          (rs, store'') = checkRateLimits ts identifier config store'
      in (r # rs, store''))"

text \<open>The periodic sweep registered with \<open>setInterval\<close>: one pass over the table.\<close>

definition cleanup :: "int \<Rightarrow> rateLimitStore \<Rightarrow> rateLimitStore" where
  "cleanup now store =
     (\<lambda>key. case store key of
               None \<Rightarrow> None
             | Some entry \<Rightarrow> if resetTime entry < now then None else Some entry)"

datatype limiterEvent = Check int string | Cleanup int

fun runLimiter :: "limiterEvent list \<Rightarrow> RateLimitConfig \<Rightarrow> rateLimitStore \<Rightarrow> rateLimitStore" where
  "runLimiter [] config store = store"
| "runLimiter (Check now ident # es) config store =
     runLimiter es config (snd (checkRateLimit now ident config store))"
| "runLimiter (Cleanup now # es) config store = runLimiter es config (cleanup now store)"

definition countsWithinLimit :: "RateLimitConfig \<Rightarrow> rateLimitStore \<Rightarrow> bool" where
  "countsWithinLimit config store \<longleftrightarrow>
     (\<forall>ident entry. store ident = Some entry \<longrightarrow> count entry \<le> maxRequests config)"

section \<open>Cache store\<close>

text \<open>
  Both cache modules work on the \<open>api_cache\<close> table, which has a unique constraint on
  \<open>(source, location_key)\<close>: the table is a map from that pair to the row.  A payload is a
  JSON value of type \<open>'a\<close>; \<open>None\<close> is \<open>null\<close>/\<open>undefined\<close>.  A timestamp column is kept as
  the number \<open>new Date(column).getTime()\<close> reads from it: \<open>NaN\<close> for text that is no date.
\<close>

datatype APISource = HUD | BEA | BLS | EIA | CENSUS

datatype timeValue = NaN | Time int

record 'a cacheRow =
  data :: "'a option"
  created_at :: timeValue
  expires_at :: timeValue

text \<open>
  The key is a string, of characters of type \<open>'c\<close>: lib/api/cache.ts is used with keys that
  \<open>generateCacheKey\<close> makes (\<open>apiCache\<close>), lib/cache.ts with keys made of request text.
\<close>

type_synonym ('c, 'a) cacheTable = "(APISource \<times> 'c list) \<rightharpoonup> 'a cacheRow"

type_synonym 'a apiCache = "(char, 'a) cacheTable"

text \<open>
  What a call of the Supabase client does, as the caller sees it: it answers the query, it
  answers with an \<open>error\<close> object, or it throws (also \<open>createServerClient\<close>, when the
  environment is not configured).
\<close>

datatype storeStatus = Healthy | ReturnsError | Throws

datatype storeException = StoreException

text \<open>\<open>.eq("source", s).eq("location_key", k).single()\<close>: an error unless exactly one row matches.\<close>

datatype 'r queryResult = QueryError | QueryData 'r

definition selectSingle :: "storeStatus \<Rightarrow> 'r option \<Rightarrow> storeException + 'r queryResult" where
  "selectSingle status matching =
     (case status of
        Throws \<Rightarrow> Inl StoreException
      | ReturnsError \<Rightarrow> Inr QueryError
      | Healthy \<Rightarrow> (case matching of None \<Rightarrow> Inr QueryError | Some row \<Rightarrow> Inr (QueryData row)))"

subsection \<open>lib/cache.ts\<close>

definition CACHE_TTL_HOURS :: "APISource \<Rightarrow> int" where
  "CACHE_TTL_HOURS source =
     (case source of HUD \<Rightarrow> 720 | BEA \<Rightarrow> 720 | BLS \<Rightarrow> 168 | EIA \<Rightarrow> 168 | CENSUS \<Rightarrow> 720)"

definition isValidAPISource :: "APISource \<Rightarrow> bool" where
  "isValidAPISource source \<longleftrightarrow> source \<in> set [HUD, BEA, BLS, EIA, CENSUS]"

definition isCacheValid :: "int \<Rightarrow> timeValue \<Rightarrow> bool" where
  "isCacheValid now expiresAt =
     (case expiresAt of NaN \<Rightarrow> False | Time expirationDate \<Rightarrow> expirationDate > now)"

text \<open>The body of the \<open>try\<close> block of \<open>getCachedData\<close>; \<open>Inl\<close> is a thrown exception.\<close>

definition getCachedData_try :: "storeStatus \<Rightarrow> int \<Rightarrow> ('c, 'a) cacheTable \<Rightarrow> APISource
    \<Rightarrow> 'c list \<Rightarrow> storeException + 'a option" where
  "getCachedData_try status now db source locationKey =
     (if \<not> isValidAPISource source then Inr None
      else if locationKey = [] then Inr None
      else case selectSingle status (db (source, locationKey)) of
        Inl e \<Rightarrow> Inl e
      | Inr QueryError \<Rightarrow> Inr None
      | Inr (QueryData row) \<Rightarrow>
          if \<not> isCacheValid now (expires_at row) then Inr None
          else Inr (data row))"

definition getCachedData :: "storeStatus \<Rightarrow> int \<Rightarrow> ('c, 'a) cacheTable \<Rightarrow> APISource
    \<Rightarrow> 'c list \<Rightarrow> 'a option" where
  "getCachedData status now db source locationKey =
     (case getCachedData_try status now db source locationKey of
        Inl e \<Rightarrow> None
      | Inr result \<Rightarrow> result)"

subsection \<open>lib/api/cache.ts\<close>

record CacheConfig =
  source :: APISource
  ttlSeconds :: "int option"

text \<open>
  \<open>DEFAULT_CACHE_TTL\<close> is imported from the types module; it is a parameter here.
  \<open>new Date(t).toISOString()\<close> throws a \<open>RangeError\<close> outside the range of \<open>Date\<close>.
\<close>

definition validDate :: "int \<Rightarrow> bool" where
  "validDate t \<longleftrightarrow> \<bar>t\<bar> \<le> 8640000000000000"

text \<open>
  The clock is read twice by each operation: the query's \<open>new Date()\<close> and the later
  \<open>Date.now()\<close> of the age in \<open>getCachedData\<close>; \<open>Date.now()\<close> of the expiry and the later
  \<open>new Date()\<close> of \<open>created_at\<close> in \<open>setCachedData\<close>.
\<close>

record clockReadings =
  firstReading :: int
  secondReading :: int

record callEnv =
  envStatus :: storeStatus
  envClock :: clockReadings

definition cacheAgeOf :: "int \<Rightarrow> timeValue \<Rightarrow> timeValue" where
  "cacheAgeOf now created =
     (case created of NaN \<Rightarrow> NaN | Time c \<Rightarrow> Time ((now - c) div 1000))"

definition expiresAfter :: "int \<Rightarrow> 'a cacheRow \<Rightarrow> bool" where
  "expiresAfter now row = (case expires_at row of NaN \<Rightarrow> False | Time t \<Rightarrow> t > now)"

definition getCachedData_api_try :: "callEnv \<Rightarrow> 'a apiCache \<Rightarrow> APISource \<Rightarrow> string
    \<Rightarrow> storeException + ('a option \<times> timeValue) option" where
  "getCachedData_api_try env db src locationKey =
     (let matching = (case db (src, locationKey) of
                        None \<Rightarrow> None
                      | Some row \<Rightarrow> if expiresAfter (firstReading (envClock env)) row then Some row else None)
      in case selectSingle (envStatus env) matching of
        Inl e \<Rightarrow> Inl e
      | Inr QueryError \<Rightarrow> Inr None
      | Inr (QueryData row) \<Rightarrow>
          Inr (Some (data row, cacheAgeOf (secondReading (envClock env)) (created_at row))))"

definition getCachedData_api :: "callEnv \<Rightarrow> 'a apiCache \<Rightarrow> APISource \<Rightarrow> string
    \<Rightarrow> ('a option \<times> timeValue) option" where
  "getCachedData_api env db src locationKey =
     (case getCachedData_api_try env db src locationKey of
        Inl e \<Rightarrow> None
      | Inr result \<Rightarrow> result)"

definition ttlOf :: "(APISource \<Rightarrow> int) \<Rightarrow> CacheConfig \<Rightarrow> int" where
  "ttlOf DEFAULT_CACHE_TTL config =
     (case ttlSeconds config of
        None \<Rightarrow> DEFAULT_CACHE_TTL (source config)
      | Some ttl \<Rightarrow> if ttl = 0 then DEFAULT_CACHE_TTL (source config) else ttl)"

definition setCachedData_api :: "(APISource \<Rightarrow> int) \<Rightarrow> callEnv \<Rightarrow> 'a apiCache \<Rightarrow> string
    \<Rightarrow> 'a option \<Rightarrow> CacheConfig \<Rightarrow> 'a apiCache" where
  "setCachedData_api DEFAULT_CACHE_TTL env db cacheKey payload config =
     (case payload of
        None \<Rightarrow> db
      | Some p \<Rightarrow>
          (case envStatus env of
             Throws \<Rightarrow> db
           | ReturnsError \<Rightarrow> db
           | Healthy \<Rightarrow>
               let expiresAt = firstReading (envClock env) + ttlOf DEFAULT_CACHE_TTL config * 1000
               in if \<not> validDate expiresAt then db
                  else db((source config, cacheKey) \<mapsto>
                         \<lparr>data = Some p, created_at = Time (secondReading (envClock env)),
                          expires_at = Time expiresAt\<rparr>)))"

record 'a cacheResult =
  resultData :: "'a option"
  cached :: bool
  cacheAge :: "timeValue option"

text \<open>
  \<open>withCache\<close>.  \<open>fetchFn\<close> runs in a world \<open>'w\<close> (what it sends upstream) and either
  throws (\<open>Inl\<close>) or returns a payload; on a hit it is not called.  The write is not awaited;
  its effect on the table is part of the returned state.
\<close>

definition withCache :: "(APISource \<Rightarrow> int) \<Rightarrow> callEnv \<Rightarrow> callEnv \<Rightarrow> string \<Rightarrow> CacheConfig
    \<Rightarrow> ('w \<Rightarrow> ('e + 'a option) \<times> 'w) \<Rightarrow> 'a apiCache \<Rightarrow> 'w
    \<Rightarrow> ('e + 'a cacheResult) \<times> 'a apiCache \<times> 'w" where
  "withCache DEFAULT_CACHE_TTL readEnv writeEnv cacheKey config fetchFn db world =
     (case getCachedData_api readEnv db (source config) cacheKey of
        Some (d, age) \<Rightarrow>
          (Inr \<lparr>resultData = d, cached = True, cacheAge = Some age\<rparr>, db, world)
      | None \<Rightarrow>
          (case fetchFn world of
             (Inl e, world') \<Rightarrow> (Inl e, db, world')
           | (Inr d, world') \<Rightarrow>
               (Inr \<lparr>resultData = d, cached = False, cacheAge = None\<rparr>,
                setCachedData_api DEFAULT_CACHE_TTL writeEnv db cacheKey d config, world')))"

section \<open>Price parity fetchers (lib/api/bea.ts)\<close>

subsection \<open>Errors and upstream replies\<close>

datatype APIErrorCode = INVALID_PARAMS | NOT_FOUND | RATE_LIMITED | UPSTREAM_ERROR | INTERNAL_ERROR

text \<open>
  A thrown value: an \<open>APIError\<close> with its code and HTTP status, or another exception (a
  rejected \<open>fetch\<close>, a body that is not JSON).
\<close>

datatype failure = APIError APIErrorCode nat | OtherException

text \<open>
  What \<open>fetch(url)\<close> followed by \<open>response.json()\<close> gives: \<open>fetch\<close> rejects, the status is
  not ok, the body does not parse, or the parsed body.
\<close>

datatype 'b httpOutcome = NetworkError | HttpStatus nat | InvalidJson | HttpOk 'b

subsection \<open>\<open>String(n)\<close> and \<open>parseInt\<close> on the decimal text of a year\<close>

definition digitChars :: string where
  "digitChars = ''0123456789''"

fun showNat :: "nat \<Rightarrow> string" where
  "showNat n = (if n < 10 then [digitChars ! n]
                else showNat (n div 10) @ [digitChars ! (n mod 10)])"

declare showNat.simps [simp del]

definition digitValue :: "char \<Rightarrow> nat option" where
  "digitValue c = map_of (zip digitChars [0, 1, 2, 3, 4, 5, 6, 7, 8, 9]) c"

text \<open>The digits at the front of the text; \<open>None\<close> is \<open>NaN\<close>.  Sign and blanks are not read.\<close>

fun parseDigits :: "nat option \<Rightarrow> string \<Rightarrow> nat option" where
  "parseDigits acc [] = acc"
| "parseDigits acc (c # cs) =
     (case digitValue c of
        None \<Rightarrow> acc
      | Some d \<Rightarrow> parseDigits (Some (10 * (case acc of None \<Rightarrow> 0 | Some a \<Rightarrow> a) + d)) cs)"

definition parseInt :: "string \<Rightarrow> nat option" where
  "parseInt s = parseDigits None s"

subsection \<open>Data\<close>

text \<open>
  \<open>RPPLineCode\<close> is imported from the types module; a row's line code is one of its four
  members or something else.  \<open>DataValue\<close> holds \<open>parseFloat(item.DataValue)\<close>, \<open>None\<close> when
  that is \<open>NaN\<close>; numbers are real numbers.
\<close>

datatype RPPLineCode = ALL_ITEMS | GOODS | SERVICES_RENTS | SERVICES_OTHER | OTHER_LINE string

record BEADataItem =
  TimePeriod :: string
  GeoFips :: string
  GeoName :: string
  LineCode :: RPPLineCode
  DataValue :: "real option"

record RegionalPriceParity =
  geoFips :: string
  geoName :: string
  stateCode :: "string option"
  year :: "nat option"
  overall :: "real option"
  percentAboveNational :: "real option"
  goods :: "real option"
  servicesRents :: "real option"
  housing :: "real option"
  servicesOther :: "real option"
  rank :: "nat option"

definition STATE_FIPS_TO_CODE :: "(string \<times> string) list" where
  "STATE_FIPS_TO_CODE =
    [(''01'', ''AL''), (''02'', ''AK''), (''04'', ''AZ''), (''05'', ''AR''), (''06'', ''CA''),
     (''08'', ''CO''), (''09'', ''CT''), (''10'', ''DE''), (''11'', ''DC''), (''12'', ''FL''),
     (''13'', ''GA''), (''15'', ''HI''), (''16'', ''ID''), (''17'', ''IL''), (''18'', ''IN''),
     (''19'', ''IA''), (''20'', ''KS''), (''21'', ''KY''), (''22'', ''LA''), (''23'', ''ME''),
     (''24'', ''MD''), (''25'', ''MA''), (''26'', ''MI''), (''27'', ''MN''), (''28'', ''MS''),
     (''29'', ''MO''), (''30'', ''MT''), (''31'', ''NE''), (''32'', ''NV''), (''33'', ''NH''),
     (''34'', ''NJ''), (''35'', ''NM''), (''36'', ''NY''), (''37'', ''NC''), (''38'', ''ND''),
     (''39'', ''OH''), (''40'', ''OK''), (''41'', ''OR''), (''42'', ''PA''), (''44'', ''RI''),
     (''45'', ''SC''), (''46'', ''SD''), (''47'', ''TN''), (''48'', ''TX''), (''49'', ''UT''),
     (''50'', ''VT''), (''51'', ''VA''), (''53'', ''WA''), (''54'', ''WV''), (''55'', ''WI''),
     (''56'', ''WY'')]"

subsection \<open>\<open>parseBEAResponse\<close>\<close>

text \<open>
  The \<open>Map\<close> keeps its keys in insertion order: a list of pairs with distinct keys, a new key
  added at the end, an entry changed where it stands.
\<close>

type_synonym rppMap = "(string \<times> RegionalPriceParity) list"

definition mapHas :: "rppMap \<Rightarrow> string \<Rightarrow> bool" where
  "mapHas m k \<longleftrightarrow> k \<in> set (map fst m)"

definition mapSetNew :: "rppMap \<Rightarrow> string \<Rightarrow> RegionalPriceParity \<Rightarrow> rppMap" where
  "mapSetNew m k v = m @ [(k, v)]"

definition mapModify :: "rppMap \<Rightarrow> string \<Rightarrow> (RegionalPriceParity \<Rightarrow> RegionalPriceParity)
    \<Rightarrow> rppMap" where
  "mapModify m k f = map (\<lambda>(k', v). if k' = k then (k', f v) else (k', v)) m"

definition newRpp :: "BEADataItem \<Rightarrow> string \<Rightarrow> RegionalPriceParity" where
  "newRpp item yearText =
     \<lparr>geoFips = GeoFips item, geoName = GeoName item,
      stateCode = map_of STATE_FIPS_TO_CODE (take 2 (GeoFips item)),
      year = parseInt yearText,
      overall = None, percentAboveNational = None, goods = None, servicesRents = None,
      housing = None, servicesOther = None, rank = None\<rparr>"

definition applyLine :: "RPPLineCode \<Rightarrow> real \<Rightarrow> RegionalPriceParity \<Rightarrow> RegionalPriceParity" where
  "applyLine code v rpp =
     (case code of
        ALL_ITEMS \<Rightarrow> rpp\<lparr>overall := Some v, percentAboveNational := Some (v - 100)\<rparr>
      | GOODS \<Rightarrow> rpp\<lparr>goods := Some v\<rparr>
      | SERVICES_RENTS \<Rightarrow> rpp\<lparr>servicesRents := Some v, housing := Some v\<rparr>
      | SERVICES_OTHER \<Rightarrow> rpp\<lparr>servicesOther := Some v\<rparr>
      | OTHER_LINE other \<Rightarrow> rpp)"

text \<open>One turn of the loop over \<open>response.BEAAPI.Results.Data\<close>.\<close>

definition parseItem :: "string \<Rightarrow> rppMap \<Rightarrow> BEADataItem \<Rightarrow> rppMap" where
  "parseItem yearText m item =
     (if TimePeriod item \<noteq> yearText then m
      else case DataValue item of
        None \<Rightarrow> m
      | Some v \<Rightarrow>
          let m1 = (if \<not> mapHas m (GeoFips item)
                    then mapSetNew m (GeoFips item) (newRpp item yearText) else m)
          in mapModify m1 (GeoFips item) (applyLine (LineCode item) v))"

text \<open>The response is given by \<open>response.BEAAPI?.Results?.Data\<close>, \<open>None\<close> when that is missing.\<close>

definition parseBEAResponse :: "BEADataItem list option \<Rightarrow> string \<Rightarrow> rppMap" where
  "parseBEAResponse response yearText =
     (case response of
        None \<Rightarrow> []
      | Some items \<Rightarrow> foldl (parseItem yearText) [] items)"

subsection \<open>Sorting and ranking\<close>

text \<open>
  \<open>Array.prototype.sort\<close> with a comparison function is a stable sort: an element goes in
  front of the first one it does not have to follow.
\<close>

fun insertByCmp :: "('a \<Rightarrow> 'a \<Rightarrow> real) \<Rightarrow> 'a \<Rightarrow> 'a list \<Rightarrow> 'a list" where
  "insertByCmp cmp x [] = [x]"
| "insertByCmp cmp x (y # ys) =
     (if cmp x y \<le> 0 then x # y # ys else y # insertByCmp cmp x ys)"

definition sortByCmp :: "('a \<Rightarrow> 'a \<Rightarrow> real) \<Rightarrow> 'a list \<Rightarrow> 'a list" where
  "sortByCmp cmp xs = foldr (insertByCmp cmp) xs []"

text \<open>\<open>(a, b) => b.overall - a.overall\<close>\<close>

definition compareOverall :: "RegionalPriceParity \<Rightarrow> RegionalPriceParity \<Rightarrow> real" where
  "compareOverall a b = the (overall b) - the (overall a)"

text \<open>The records of the map that have an \<open>overall\<close> value, in the map's order.\<close>

definition completeRecords :: "rppMap \<Rightarrow> RegionalPriceParity list" where
  "completeRecords m = filter (\<lambda>rpp. overall rpp \<noteq> None) (map snd m)"

text \<open>\<open>results.forEach((rpp, index) => { rpp.rank = index + 1 })\<close>\<close>

definition assignRanks :: "RegionalPriceParity list \<Rightarrow> RegionalPriceParity list" where
  "assignRanks results =
     map (\<lambda>(index, rpp). rpp\<lparr>rank := Some (index + 1)\<rparr>) (enumerate 0 results)"

definition rankByOverall :: "RegionalPriceParity list \<Rightarrow> RegionalPriceParity list" where
  "rankByOverall results = assignRanks (sortByCmp compareOverall results)"

subsection \<open>The fetchers\<close>

record beaQuery =
  TableName :: string
  GeoFipsParam :: string
  YearParam :: string

type_synonym beaUpstream = "beaQuery \<Rightarrow> BEADataItem list option httpOutcome"

definition getLatestRPPYear :: "nat \<Rightarrow> nat" where
  "getLatestRPPYear currentYear = currentYear - 2"

definition dataYearOf :: "nat \<Rightarrow> nat option \<Rightarrow> nat" where
  "dataYearOf currentYear requested =
     (case requested of
        None \<Rightarrow> getLatestRPPYear currentYear
      | Some y \<Rightarrow> if y = 0 then getLatestRPPYear currentYear else y)"

definition generateCacheKey :: "string \<Rightarrow> string \<Rightarrow> string \<Rightarrow> string" where
  "generateCacheKey sourceText endpoint paramString =
     sourceText @ '':'' @ endpoint @ '':'' @ paramString"

definition apiSourceText :: "APISource \<Rightarrow> string" where
  "apiSourceText src =
     (case src of HUD \<Rightarrow> ''hud'' | BEA \<Rightarrow> ''bea'' | BLS \<Rightarrow> ''bls'' | EIA \<Rightarrow> ''eia''
      | CENSUS \<Rightarrow> ''census'')"

text \<open>\<open>JSON.stringify({ year: dataYear }, ["year"])\<close>\<close>

definition yearParams :: "nat \<Rightarrow> string" where
  \<open>yearParams dataYear = ''{"year":'' @ showNat dataYear @ ''}''\<close>

text \<open>
  The functions passed to \<open>withCache\<close>.  The world they run in is the list of the queries
  sent upstream so far.
\<close>

definition getRPPAllStates_fetchFn :: "beaUpstream \<Rightarrow> nat \<Rightarrow> beaQuery list
    \<Rightarrow> (failure + RegionalPriceParity list option) \<times> beaQuery list" where
  "getRPPAllStates_fetchFn upstream dataYear sent =
     (let query = \<lparr>TableName = ''SARPP'', GeoFipsParam = ''STATE'', YearParam = showNat dataYear\<rparr>
      in case upstream query of
        NetworkError \<Rightarrow> (Inl OtherException, sent @ [query])
      | HttpStatus code \<Rightarrow> (Inl (APIError UPSTREAM_ERROR 502), sent @ [query])
      | InvalidJson \<Rightarrow> (Inl OtherException, sent @ [query])
      | HttpOk response \<Rightarrow>
          (let rppMap = parseBEAResponse response (showNat dataYear);
               results = completeRecords rppMap
           in (Inr (Some (rankByOverall results)), sent @ [query])))"

definition getRPPAllMetros_fetchFn :: "beaUpstream \<Rightarrow> nat \<Rightarrow> beaQuery list
    \<Rightarrow> (failure + RegionalPriceParity list option) \<times> beaQuery list" where
  "getRPPAllMetros_fetchFn upstream dataYear sent =
     (let query = \<lparr>TableName = ''MARPP'', GeoFipsParam = ''MSA'', YearParam = showNat dataYear\<rparr>
      in case upstream query of
        NetworkError \<Rightarrow> (Inl OtherException, sent @ [query])
      | HttpStatus code \<Rightarrow> (Inl (APIError UPSTREAM_ERROR 502), sent @ [query])
      | InvalidJson \<Rightarrow> (Inl OtherException, sent @ [query])
      | HttpOk response \<Rightarrow>
          (let rppMap = parseBEAResponse response (showNat dataYear);
               results = completeRecords rppMap
           in (Inr (Some (rankByOverall results)), sent @ [query])))"

text \<open>
  \<open>BEA_API_KEY\<close> is read from the environment; \<open>buildBEAUrl\<close> throws before the cache is
  looked at when it is not set.
\<close>

record beaEnv =
  BEA_API_KEY :: "string option"
  bea_currentYear :: nat
  bea_defaultTtl :: "APISource \<Rightarrow> int"
  bea_readEnv :: callEnv
  bea_writeEnv :: callEnv
  bea_upstream :: beaUpstream

definition keyConfigured :: "string option \<Rightarrow> bool" where
  "keyConfigured k = (case k of None \<Rightarrow> False | Some text \<Rightarrow> text \<noteq> [])"

definition getRPPAllStates :: "beaEnv \<Rightarrow> nat option \<Rightarrow> RegionalPriceParity list apiCache
    \<Rightarrow> beaQuery list
    \<Rightarrow> (failure + RegionalPriceParity list cacheResult)
        \<times> RegionalPriceParity list apiCache \<times> beaQuery list" where
  "getRPPAllStates env requested db sent =
     (let dataYear = dataYearOf (bea_currentYear env) requested;
          cacheKey = generateCacheKey (apiSourceText BEA) ''rpp-states'' (yearParams dataYear)
      in if \<not> keyConfigured (BEA_API_KEY env) then (Inl (APIError INTERNAL_ERROR 500), db, sent)
         else withCache (bea_defaultTtl env) (bea_readEnv env) (bea_writeEnv env) cacheKey
                \<lparr>source = BEA, ttlSeconds = Some (86400 * 30)\<rparr>
                (getRPPAllStates_fetchFn (bea_upstream env) dataYear) db sent)"

definition getRPPAllMetros :: "beaEnv \<Rightarrow> nat option \<Rightarrow> RegionalPriceParity list apiCache
    \<Rightarrow> beaQuery list
    \<Rightarrow> (failure + RegionalPriceParity list cacheResult)
        \<times> RegionalPriceParity list apiCache \<times> beaQuery list" where
  "getRPPAllMetros env requested db sent =
     (let dataYear = dataYearOf (bea_currentYear env) requested;
          cacheKey = generateCacheKey (apiSourceText BEA) ''rpp-metros'' (yearParams dataYear)
      in if \<not> keyConfigured (BEA_API_KEY env) then (Inl (APIError INTERNAL_ERROR 500), db, sent)
         else withCache (bea_defaultTtl env) (bea_readEnv env) (bea_writeEnv env) cacheKey
                \<lparr>source = BEA, ttlSeconds = Some (86400 * 30)\<rparr>
                (getRPPAllMetros_fetchFn (bea_upstream env) dataYear) db sent)"

subsection \<open>Sort key and example data\<close>

text \<open>The key under which the library's \<open>sort_key\<close> is the sort by \<open>compareOverall\<close>.\<close>

definition overallKey :: "RegionalPriceParity \<Rightarrow> real" where
  "overallKey r = - the (overall r)"

definition exampleItems :: "BEADataItem list" where
  "exampleItems =
    [\<lparr>TimePeriod = ''2022'', GeoFips = ''06000'', GeoName = ''California'',
      LineCode = ALL_ITEMS, DataValue = Some 110\<rparr>,
     \<lparr>TimePeriod = ''2022'', GeoFips = ''01000'', GeoName = ''Alabama'',
      LineCode = ALL_ITEMS, DataValue = Some 95\<rparr>,
     \<lparr>TimePeriod = ''2022'', GeoFips = ''36000'', GeoName = ''New York'',
      LineCode = ALL_ITEMS, DataValue = Some 100\<rparr>]"

definition exampleRpp :: "string \<Rightarrow> string \<Rightarrow> string \<Rightarrow> real \<Rightarrow> nat option
    \<Rightarrow> RegionalPriceParity" where
  "exampleRpp fips name code v rk =
     \<lparr>geoFips = fips, geoName = name, stateCode = Some code, year = Some 2022,
      overall = Some v, percentAboveNational = Some (v - 100), goods = None,
      servicesRents = None, housing = None, servicesOther = None, rank = rk\<rparr>"

definition healthyAt :: "int \<Rightarrow> callEnv" where
  "healthyAt t = \<lparr>envStatus = Healthy, envClock = \<lparr>firstReading = t, secondReading = t\<rparr>\<rparr>"

definition items2021 :: "BEADataItem list" where
  "items2021 =
    [\<lparr>TimePeriod = ''2021'', GeoFips = ''06000'', GeoName = ''California'',
      LineCode = ALL_ITEMS, DataValue = Some 110\<rparr>]"

definition upstream2021 :: beaUpstream where
  "upstream2021 query =
     (if YearParam query = ''2021'' then HttpOk (Some items2021) else HttpOk (Some []))"

definition exampleEnv :: "beaUpstream \<Rightarrow> beaEnv" where
  "exampleEnv up =
     \<lparr>BEA_API_KEY = Some ''key'', bea_currentYear = 2024, bea_defaultTtl = (\<lambda>s. 3600),
      bea_readEnv = healthyAt 1000, bea_writeEnv = healthyAt 2000, bea_upstream = up\<rparr>"

section \<open>Location resolver (lib/api/hud.ts)\<close>

subsection \<open>Strings\<close>

text \<open>\<open>s.split(',')\<close>: the pieces between the commas, at least one.\<close>

fun splitComma :: "ustring \<Rightarrow> ustring list" where
  "splitComma [] = [[]]"
| "splitComma (c # cs) =
     (if c = of_char CHR '','' then [] # splitComma cs
      else (case splitComma cs of
              [] \<Rightarrow> [[c]]
            | piece # pieces \<Rightarrow> (c # piece) # pieces))"

text \<open>
  \<open>s.trim()\<close> removes the white space and the line terminators of ECMAScript from both ends:
  U+0009 to U+000D, U+0020, U+00A0, U+1680, U+2000 to U+200A, U+2028, U+2029, U+202F, U+205F,
  U+3000 and U+FEFF.
\<close>

definition isSpace :: "nat \<Rightarrow> bool" where
  "isSpace c \<longleftrightarrow> c \<in> set [0x0009, 0x000A, 0x000B, 0x000C, 0x000D, 0x0020, 0x00A0, 0x1680,
     0x2000, 0x2001, 0x2002, 0x2003, 0x2004, 0x2005, 0x2006, 0x2007, 0x2008, 0x2009, 0x200A,
     0x2028, 0x2029, 0x202F, 0x205F, 0x3000, 0xFEFF]"

definition trim :: "ustring \<Rightarrow> ustring" where
  "trim s = rev (dropWhile isSpace (rev (dropWhile isSpace s)))"

text \<open>\<open>x || fallback\<close> on a string that may be missing: the empty string is falsy.\<close>

definition orElse :: "'c list option \<Rightarrow> 'c list \<Rightarrow> 'c list" where
  "orElse x fallback = (case x of None \<Rightarrow> fallback | Some s \<Rightarrow> if s = [] then fallback else s)"

text \<open>\<open>parts[i]\<close>, \<open>undefined\<close> out of range.\<close>

definition part :: "ustring list \<Rightarrow> nat \<Rightarrow> ustring option" where
  "part parts i = (if i < length parts then Some (parts ! i) else None)"

text \<open>
  The \<open>like\<close> filter: \<open>%\<close> (for which PostgREST also reads \<open>*\<close>) stands for any text, \<open>_\<close> for
  any one character, and a backslash takes the next character literally.
\<close>

fun likeMatch :: "ustring \<Rightarrow> ustring \<Rightarrow> bool" where
  "likeMatch [] s = (s = [])"
| "likeMatch (p # ps) s =
     (if p = of_char CHR ''%'' \<or> p = of_char CHR ''*'' then
        (likeMatch ps s \<or> (case s of [] \<Rightarrow> False | c # cs \<Rightarrow> likeMatch (p # ps) cs))
      else if p = of_char CHR ''_'' then
        (case s of [] \<Rightarrow> False | c # cs \<Rightarrow> likeMatch ps cs)
      else if p = of_char CHR 0x5C then
        (case ps of
           [] \<Rightarrow> False
         | q # qs \<Rightarrow> (case s of [] \<Rightarrow> False | c # cs \<Rightarrow> q = c \<and> likeMatch qs cs))
      else (case s of [] \<Rightarrow> False | c # cs \<Rightarrow> p = c \<and> likeMatch ps cs))"

subsection \<open>The crosswalk table\<close>

text \<open>
  A row of \<open>zip_to_cbsa\<close>; the table is the list of its rows.  \<open>order('residential_ratio',
  { ascending: false })\<close> is a sort by the ratio, largest first; the order the database gives
  to rows of equal ratio is not fixed, and here it is the order of the table.
\<close>

record CrosswalkRow =
  zip_code :: ustring
  cbsa_code :: ustring
  cbsa_name :: ustring
  residential_ratio :: real

definition orderByRatioDesc :: "CrosswalkRow list \<Rightarrow> CrosswalkRow list" where
  "orderByRatioDesc rows = sort_key (\<lambda>row. - residential_ratio row) rows"

record CBSACrosswalkResult =
  cbsaCode :: ustring
  cbsaName :: ustring
  cityName :: ustring
  stateCode :: ustring
  residentialRatio :: real
  isSplitZip :: bool

definition toCrosswalkResult :: "CrosswalkRow \<Rightarrow> bool \<Rightarrow> CBSACrosswalkResult" where
  "toCrosswalkResult row split =
     (let nameParts = splitComma (cbsa_name row)
      in \<lparr>cbsaCode = cbsa_code row, cbsaName = cbsa_name row,
          cityName = orElse (map_option trim (part nameParts 0)) (str ''Unknown''),
          stateCode = orElse (map_option trim (part nameParts 1)) [],
          residentialRatio = residential_ratio row, isSplitZip = split\<rparr>)"

definition getMetroCodeForZip :: "storeStatus \<Rightarrow> CrosswalkRow list \<Rightarrow> ustring
    \<Rightarrow> CBSACrosswalkResult option" where
  "getMetroCodeForZip st table zipcode =
     (case st of
        Throws \<Rightarrow> None
      | ReturnsError \<Rightarrow> None
      | Healthy \<Rightarrow>
          (case orderByRatioDesc (filter (\<lambda>row. zip_code row = zipcode) table) of
             [] \<Rightarrow> None
           | primary # others \<Rightarrow> Some (toCrosswalkResult primary (length (primary # others) > 1))))"

subsection \<open>\<open>getNearbyMetros\<close>\<close>

text \<open>The loop that keeps the first row of each code while fewer than \<open>limit\<close> are kept.\<close>

definition nearbyStep :: "nat \<Rightarrow> ustring list \<times> CBSACrosswalkResult list \<Rightarrow> CrosswalkRow
    \<Rightarrow> ustring list \<times> CBSACrosswalkResult list" where
  "nearbyStep limit acc item =
     (case acc of (seen, unique) \<Rightarrow>
        if cbsa_code item \<notin> set seen \<and> length unique < limit
        then (seen @ [cbsa_code item], unique @ [toCrosswalkResult item False])
        else (seen, unique))"

definition nearbyCandidates :: "CrosswalkRow list \<Rightarrow> CBSACrosswalkResult \<Rightarrow> CrosswalkRow list" where
  "nearbyCandidates table crosswalk =
     orderByRatioDesc
       (filter (\<lambda>row. likeMatch (str ''%'' @ stateCode crosswalk @ str ''%'') (cbsa_name row)
                      \<and> cbsa_code row \<noteq> cbsaCode crosswalk) table)"

definition getNearbyMetros :: "storeStatus \<Rightarrow> storeStatus \<Rightarrow> CrosswalkRow list \<Rightarrow> ustring \<Rightarrow> nat
    \<Rightarrow> CBSACrosswalkResult list" where
  "getNearbyMetros st1 st2 table zipcode limit =
     (case getMetroCodeForZip st1 table zipcode of
        None \<Rightarrow> []
      | Some crosswalk \<Rightarrow>
          (case st2 of
             Throws \<Rightarrow> []
           | ReturnsError \<Rightarrow> []
           | Healthy \<Rightarrow>
               snd (foldl (nearbyStep limit) ([], [])
                      (take (limit * 3) (nearbyCandidates table crosswalk)))))"

subsection \<open>Loop invariant and example tables\<close>

text \<open>
  \<open>nearbyInv\<close> is what holds of the loop of \<open>getNearbyMetros\<close> after the rows \<open>pre\<close>, with
  the rows \<open>xs\<close> still to come, \<open>all\<close> being every candidate row in the order of the query.
\<close>

definition exampleTable :: "CrosswalkRow list" where
  "exampleTable =
    [\<lparr>zip_code = str ''03049'', cbsa_code = str ''31700'', cbsa_name = str ''Manchester-Nashua, NH'',
      residential_ratio = 0.3\<rparr>,
     \<lparr>zip_code = str ''03049'', cbsa_code = str ''14460'', cbsa_name = str ''Boston-Cambridge, MA-NH'',
      residential_ratio = 0.7\<rparr>,
     \<lparr>zip_code = str ''03301'', cbsa_code = str ''18180'', cbsa_name = str ''Concord, NH'',
      residential_ratio = 1\<rparr>]"

definition nearbyInv :: "nat \<Rightarrow> CrosswalkRow list \<Rightarrow> CrosswalkRow list \<Rightarrow> CrosswalkRow list
    \<Rightarrow> ustring list \<times> CBSACrosswalkResult list \<Rightarrow> bool" where
  "nearbyInv limit all pre xs acc =
     (case acc of (seen, unique) \<Rightarrow>
        seen = map cbsaCode unique \<and> distinct seen \<and> length unique \<le> limit
      \<and> (length unique < limit \<longrightarrow> (\<forall>row \<in> set pre. cbsa_code row \<in> set seen))
      \<and> (\<forall>c \<in> set unique. \<exists>row \<in> set pre. c = toCrosswalkResult row False
             \<and> (\<forall>row' \<in> set all. cbsa_code row' = cbsa_code row
                    \<longrightarrow> residential_ratio row' \<le> residential_ratio row))
      \<and> sorted_wrt (\<ge>) (map residentialRatio unique)
      \<and> (\<forall>c \<in> set unique. \<forall>row \<in> set xs. residential_ratio row \<le> residentialRatio c))"

definition upperTable :: "CrosswalkRow list" where
  "upperTable =
    [\<lparr>zip_code = str ''36602'', cbsa_code = str ''33660'', cbsa_name = str ''MOBILE, AL'',
      residential_ratio = 1\<rparr>,
     \<lparr>zip_code = str ''31701'', cbsa_code = str ''10500'', cbsa_name = str ''ALBANY, GA'',
      residential_ratio = 1\<rparr>]"

section \<open>Fair market rent fetcher (lib/api/hud.ts) and its route (app/api/hud/route.ts)\<close>

subsection \<open>\<open>setCachedData\<close> of lib/cache.ts\<close>

text \<open>
  The row is upserted with \<open>expires_at\<close> set \<open>CACHE_TTL_HOURS\<close> hours ahead (\<open>setHours\<close> on the
  local time, taken as that many hours of 3600 s); \<open>created_at\<close> is not part of the upsert, so a
  new row gets the database's time and an existing row keeps its own.
\<close>

definition setCachedData :: "storeStatus \<Rightarrow> int \<Rightarrow> int \<Rightarrow> ('c, 'a) cacheTable \<Rightarrow> APISource
    \<Rightarrow> 'c list \<Rightarrow> 'a option \<Rightarrow> bool \<times> ('c, 'a) cacheTable" where
  "setCachedData st now dbNow db src locationKey payload =
     (if \<not> isValidAPISource src then (False, db)
      else if locationKey = [] then (False, db)
      else case payload of
        None \<Rightarrow> (False, db)
      | Some p \<Rightarrow>
          (case st of
             Throws \<Rightarrow> (False, db)
           | ReturnsError \<Rightarrow> (False, db)
           | Healthy \<Rightarrow>
               let expiresAt = now + CACHE_TTL_HOURS src * 3600000
               in if \<not> validDate expiresAt then (False, db)
                  else (True,
                        db((src, locationKey) \<mapsto>
                          \<lparr>data = Some p,
                           created_at = (case db (src, locationKey) of
                                           None \<Rightarrow> Time dbNow
                                         | Some old \<Rightarrow> created_at old),
                           expires_at = Time expiresAt\<rparr>))))"

subsection \<open>The upstream service\<close>

record FMRAttributes =
  FMR_AREANAME :: "ustring option"
  FMR_CODE :: "ustring option"
  FMR_0BDR :: "real option"
  FMR_1BDR :: "real option"
  FMR_2BDR :: "real option"
  FMR_3BDR :: "real option"
  FMR_4BDR :: "real option"

text \<open>
  What the request to the feature service gives: it is aborted by the timeout, \<open>fetch\<close>
  rejects, the status is not ok, the body is not JSON, or the body's \<open>features\<close> (the empty
  list when missing).
\<close>

datatype hudReply =
    HudAborted
  | HudNetworkError
  | HudStatus nat
  | HudInvalidJson
  | HudFeatures "FMRAttributes list"

definition fetchFMRByCBSA :: "(ustring \<Rightarrow> hudReply) \<Rightarrow> ustring
    \<Rightarrow> errorMessage + FMRAttributes option" where
  "fetchFMRByCBSA hud code =
     (case hud code of
        HudAborted \<Rightarrow> Inl HudApiTimeout
      | HudNetworkError \<Rightarrow> Inl FetchFailure
      | HudStatus st \<Rightarrow> Inl (HudApiReturned st)
      | HudInvalidJson \<Rightarrow> Inl FetchFailure
      | HudFeatures features \<Rightarrow>
          (case features of [] \<Rightarrow> Inr None | feature # rest \<Rightarrow> Inr (Some feature)))"

subsection \<open>\<open>fetchFairMarketRents\<close>\<close>

text \<open>\<open>\d\<close> of a regular expression: the ten digits of ASCII.\<close>

definition isDigit :: "nat \<Rightarrow> bool" where
  "isDigit c \<longleftrightarrow> c \<in> set (str digitChars)"

text \<open>\<open>/^\d{5}$/.test(zipCode)\<close>\<close>

definition validateZipCode :: "ustring \<Rightarrow> bool" where
  "validateZipCode zipcode \<longleftrightarrow> length zipcode = 5 \<and> list_all isDigit zipcode"

text \<open>\<open>x || 0\<close> on a number that may be missing.\<close>

definition orZero :: "real option \<Rightarrow> real" where
  "orZero x = (case x of None \<Rightarrow> 0 | Some v \<Rightarrow> v)"

definition toFairMarketRent :: "ustring \<Rightarrow> CBSACrosswalkResult \<Rightarrow> FMRAttributes
    \<Rightarrow> HUDFairMarketRent" where
  "toFairMarketRent zipcode crosswalk attrs =
     (let areaParts = map_option splitComma (FMR_AREANAME attrs)
      in \<lparr>HUDFairMarketRent.zipCode = zipcode,
          countyName = orElse (Option.bind areaParts (\<lambda>parts. part parts 0)) (cityName crosswalk),
          HUDFairMarketRent.stateName =
            orElse (map_option trim (Option.bind areaParts (\<lambda>parts. part parts 1)))
              (CBSACrosswalkResult.stateCode crosswalk),
          HUDFairMarketRent.stateCode = CBSACrosswalkResult.stateCode crosswalk,
          metroName = orElse (FMR_AREANAME attrs) (cbsaName crosswalk),
          metroCode = FMR_CODE attrs,
          HUDFairMarketRent.year = 2024,
          areaName = orElse (FMR_AREANAME attrs) (cbsaName crosswalk),
          efficiency = orZero (FMR_0BDR attrs),
          oneBedroom = orZero (FMR_1BDR attrs),
          twoBedroom = orZero (FMR_2BDR attrs),
          threeBedroom = orZero (FMR_3BDR attrs),
          fourBedroom = orZero (FMR_4BDR attrs),
          isSmallAreaFMR = False\<rparr>)"

text \<open>
  The surroundings of a lookup: how the cache, the crosswalk table and the feature service
  answer for a ZIP, and the clock.  The world a lookup changes is the cache table and the list
  of the ZIPs whose lookup has been started.
\<close>

record hudEnv =
  hud_cacheRead :: "ustring \<Rightarrow> storeStatus"
  hud_cacheWrite :: "ustring \<Rightarrow> storeStatus"
  hud_crosswalk :: "ustring \<Rightarrow> storeStatus"
  hud_now :: int
  hud_dbNow :: int
  hud_table :: "CrosswalkRow list"
  hud_service :: "ustring \<Rightarrow> hudReply"

type_synonym hudWorld = "(nat, HUDFairMarketRent) cacheTable \<times> ustring list"

definition fetchFairMarketRents :: "hudEnv \<Rightarrow> ustring \<Rightarrow> hudWorld
    \<Rightarrow> (errorMessage + HUDFairMarketRent) \<times> hudWorld" where
  "fetchFairMarketRents env zipcode world =
     (case world of (db, started) \<Rightarrow>
        if \<not> validateZipCode zipcode
        then (Inl (InvalidZipFormat zipcode), db, started @ [zipcode])
        else
          (case getCachedData (hud_cacheRead env zipcode) (hud_now env) db HUD (str ''zip:'' @ zipcode) of
             Some cachedRent \<Rightarrow> (Inr cachedRent, db, started @ [zipcode])
           | None \<Rightarrow>
               (case getMetroCodeForZip (hud_crosswalk env zipcode) (hud_table env) zipcode of
                  None \<Rightarrow> (Inl (ZipNotFound zipcode), db, started @ [zipcode])
                | Some crosswalk \<Rightarrow>
                    (case fetchFMRByCBSA (hud_service env) (cbsaCode crosswalk) of
                       Inl message \<Rightarrow> (Inl message, db, started @ [zipcode])
                     | Inr None \<Rightarrow> (Inl (NoFmrData (cityName crosswalk)), db, started @ [zipcode])
                     | Inr (Some attrs) \<Rightarrow>
                         (let fmrData = toFairMarketRent zipcode crosswalk attrs
                          in (Inr fmrData,
                              snd (setCachedData (hud_cacheWrite env zipcode) (hud_now env)
                                     (hud_dbNow env) db HUD (str ''zip:'' @ zipcode) (Some fmrData)),
                              started @ [zipcode]))))))"

subsection \<open>\<open>fetchMultipleFairMarketRents\<close>\<close>

text \<open>
  Every ZIP's lookup is wrapped in its own \<open>try\<close>/\<open>catch\<close>; \<open>Promise.all\<close> gives the items in
  the order of the ZIPs.  The lookups are run here one after the other.
\<close>

definition toBatchItem :: "ustring \<Rightarrow> errorMessage + HUDFairMarketRent \<Rightarrow> FMRBatchItem" where
  "toBatchItem zipcode outcome =
     (case outcome of
        Inr rent \<Rightarrow> \<lparr>FMRBatchItem.zipCode = zipcode, data = Some rent, error = None\<rparr>
      | Inl message \<Rightarrow> \<lparr>FMRBatchItem.zipCode = zipcode, data = None, error = Some message\<rparr>)"

fun fetchMultipleFairMarketRents :: "hudEnv \<Rightarrow> ustring list \<Rightarrow> hudWorld
    \<Rightarrow> FMRBatchItem list \<times> hudWorld" where
  "fetchMultipleFairMarketRents env [] world = ([], world)"
| "fetchMultipleFairMarketRents env (zipcode # zips) world =
     (case fetchFairMarketRents env zipcode world of
        (outcome, world1) \<Rightarrow>
          (case fetchMultipleFairMarketRents env zips world1 of
             (items, world2) \<Rightarrow> (toBatchItem zipcode outcome # items, world2)))"

subsection \<open>The route's \<open>GET\<close>\<close>

text \<open>
  The response: an error envelope (\<open>success: false\<close>) with its code and status, or the batch
  envelope (\<open>success: true\<close>) with the rent records, the counts of \<open>meta\<close> and the per-item
  errors.  Requests for a state and for a single ZIP take paths of their own, which are not
  followed here.
\<close>

datatype hudResponse =
    ErrorResponse string nat
  | BatchResponse "HUDFairMarketRent list" nat nat nat "(ustring \<times> errorMessage option) list"
  | StateRequest ustring
  | SingleZipRequest ustring

definition success :: "hudResponse \<Rightarrow> bool" where
  "success response =
     (case response of
        ErrorResponse code st \<Rightarrow> False
      | BatchResponse rents requested successful failed errors \<Rightarrow> True
      | StateRequest s \<Rightarrow> True
      | SingleZipRequest z \<Rightarrow> True)"

definition given :: "ustring option \<Rightarrow> bool" where
  "given param = (case param of None \<Rightarrow> False | Some text \<Rightarrow> text \<noteq> [])"

definition textOf :: "ustring option \<Rightarrow> ustring" where
  "textOf param = (case param of None \<Rightarrow> [] | Some text \<Rightarrow> text)"

definition GET :: "hudEnv \<Rightarrow> ustring option \<Rightarrow> ustring option \<Rightarrow> hudWorld
    \<Rightarrow> hudResponse \<times> hudWorld" where
  "GET env zipParam stateParam world =
     (if \<not> given zipParam \<and> \<not> given stateParam
      then (ErrorResponse ''MISSING_PARAMETER'' 400, world)
      else if given stateParam then (StateRequest (textOf stateParam), world)
      else
        (let zipCodes = map trim (splitComma (textOf zipParam));
             invalidZips = filter (\<lambda>z. \<not> validateZipCode z) zipCodes
         in if length invalidZips > 0 then (ErrorResponse ''INVALID_ZIP'' 400, world)
            else if length zipCodes = 1 then (SingleZipRequest (hd zipCodes), world)
            else if length zipCodes > 20 then (ErrorResponse ''TOO_MANY_ZIPS'' 400, world)
            else
              (case fetchMultipleFairMarketRents env zipCodes world of
                 (results, world') \<Rightarrow>
                   (let successful = filter (\<lambda>r. FMRBatchItem.data r \<noteq> None) results;
                        failed = filter (\<lambda>r. FMRBatchItem.data r = None) results
                    in (BatchResponse (List.map_filter FMRBatchItem.data successful)
                          (length zipCodes) (length successful) (length failed)
                          (map (\<lambda>f. (FMRBatchItem.zipCode f, error f)) failed),
                        world')))))"

subsection \<open>Settled items and an example request\<close>

text \<open>An item is settled when it carries a rent record or an error, and not both.\<close>

definition itemSettled :: "FMRBatchItem \<Rightarrow> bool" where
  "itemSettled item \<longleftrightarrow>
     (FMRBatchItem.data item \<noteq> None \<and> error item = None)
   \<or> (FMRBatchItem.data item = None \<and> error item \<noteq> None)"

definition bostonAttrs :: FMRAttributes where
  "bostonAttrs =
     \<lparr>FMR_AREANAME = None, FMR_CODE = Some (str ''METRO14460M14460''), FMR_0BDR = Some 2025,
      FMR_1BDR = Some 2198, FMR_2BDR = Some 2635, FMR_3BDR = Some 3207, FMR_4BDR = None\<rparr>"

definition exampleHudEnv :: hudEnv where
  "exampleHudEnv =
     \<lparr>hud_cacheRead = (\<lambda>z. Healthy), hud_cacheWrite = (\<lambda>z. Healthy),
      hud_crosswalk = (\<lambda>z. Healthy), hud_now = 1000, hud_dbNow = 1000,
      hud_table = exampleTable,
      hud_service = (\<lambda>code. if code = str ''14460'' then HudFeatures [bostonAttrs]
                             else HudFeatures [])\<rparr>"

definition bostonRent :: HUDFairMarketRent where
  "bostonRent =
     \<lparr>HUDFairMarketRent.zipCode = str ''03049'', countyName = str ''Boston-Cambridge'',
      HUDFairMarketRent.stateName = str ''MA-NH'', HUDFairMarketRent.stateCode = str ''MA-NH'',
      metroName = str ''Boston-Cambridge, MA-NH'', metroCode = Some (str ''METRO14460M14460''),
      HUDFairMarketRent.year = 2024, areaName = str ''Boston-Cambridge, MA-NH'',
      efficiency = 2025, oneBedroom = 2198, twoBedroom = 2635, threeBedroom = 3207,
      fourBedroom = 0, isSmallAreaFMR = False\<rparr>"

section \<open>Energy price fetcher (lib/api/eia.ts)\<close>

definition STATE_NAME_TO_CODE :: "(string \<times> string) list" where
  "STATE_NAME_TO_CODE =
    [(''Alabama'', ''AL''), (''Alaska'', ''AK''), (''Arizona'', ''AZ''), (''Arkansas'', ''AR''),
     (''California'', ''CA''), (''Colorado'', ''CO''), (''Connecticut'', ''CT''),
     (''Delaware'', ''DE''), (''District of Columbia'', ''DC''), (''Florida'', ''FL''),
     (''Georgia'', ''GA''), (''Hawaii'', ''HI''), (''Idaho'', ''ID''), (''Illinois'', ''IL''),
     (''Indiana'', ''IN''), (''Iowa'', ''IA''), (''Kansas'', ''KS''), (''Kentucky'', ''KY''),
     (''Louisiana'', ''LA''), (''Maine'', ''ME''), (''Maryland'', ''MD''),
     (''Massachusetts'', ''MA''), (''Michigan'', ''MI''), (''Minnesota'', ''MN''),
     (''Mississippi'', ''MS''), (''Missouri'', ''MO''), (''Montana'', ''MT''),
     (''Nebraska'', ''NE''), (''Nevada'', ''NV''), (''New Hampshire'', ''NH''),
     (''New Jersey'', ''NJ''), (''New Mexico'', ''NM''), (''New York'', ''NY''),
     (''North Carolina'', ''NC''), (''North Dakota'', ''ND''), (''Ohio'', ''OH''),
     (''Oklahoma'', ''OK''), (''Oregon'', ''OR''), (''Pennsylvania'', ''PA''),
     (''Rhode Island'', ''RI''), (''South Carolina'', ''SC''), (''South Dakota'', ''SD''),
     (''Tennessee'', ''TN''), (''Texas'', ''TX''), (''Utah'', ''UT''), (''Vermont'', ''VT''),
     (''Virginia'', ''VA''), (''Washington'', ''WA''), (''West Virginia'', ''WV''),
     (''Wisconsin'', ''WI''), (''Wyoming'', ''WY'')]"

definition STATE_CODE_TO_NAME :: "(string \<times> string) list" where
  "STATE_CODE_TO_NAME = map (\<lambda>(name, code). (code, name)) STATE_NAME_TO_CODE"

text \<open>\<open>toUpperCase\<close> and \<open>/^[A-Z]{2}$/\<close>, for the letters of ASCII.\<close>

definition lowerLetters :: string where
  "lowerLetters = ''abcdefghijklmnopqrstuvwxyz''"

definition upperLetters :: string where
  "upperLetters = ''ABCDEFGHIJKLMNOPQRSTUVWXYZ''"

definition toUpperChar :: "char \<Rightarrow> char" where
  "toUpperChar c = (case map_of (zip lowerLetters upperLetters) c of None \<Rightarrow> c | Some u \<Rightarrow> u)"

definition toUpperCase :: "string \<Rightarrow> string" where
  "toUpperCase s = map toUpperChar s"

definition isStateCode :: "string \<Rightarrow> bool" where
  "isStateCode s \<longleftrightarrow> length s = 2 \<and> list_all (\<lambda>c. c \<in> set upperLetters) s"

text \<open>
  A \<open>Record<string, number>\<close> of prices by state is a list of pairs with distinct keys.  What
  \<open>Promise.allSettled\<close> reports for a sub-fetch: it was rejected, or it was fulfilled with the
  \<open>data\<close> of its result (\<open>None\<close> when that is \<open>null\<close>).
\<close>

type_synonym priceRecord = "(string \<times> real) list"

datatype settled = Rejected | Fulfilled "priceRecord option"

text \<open>\<open>result?.data?.[upperState]\<close>\<close>

definition priceIn :: "settled \<Rightarrow> string \<Rightarrow> real option" where
  "priceIn result upperState =
     (case result of
        Rejected \<Rightarrow> None
      | Fulfilled None \<Rightarrow> None
      | Fulfilled (Some record) \<Rightarrow> map_of record upperState)"

text \<open>The sum and the count over \<open>Object.values(result.data)\<close>, both 0 without data.\<close>

definition pricesOf :: "settled \<Rightarrow> real list" where
  "pricesOf result =
     (case result of
        Rejected \<Rightarrow> []
      | Fulfilled None \<Rightarrow> []
      | Fulfilled (Some record) \<Rightarrow> map snd record)"

definition averageOf :: "settled \<Rightarrow> real option" where
  "averageOf result =
     (if length (pricesOf result) > 0
      then Some (sum_list (pricesOf result) / real (length (pricesOf result)))
      else None)"

text \<open>\<open>price && avg && avg > 0 ? (price / avg) * 100 : undefined\<close>: zero is falsy.\<close>

definition indexOf :: "real option \<Rightarrow> real option \<Rightarrow> real option" where
  "indexOf price avg =
     (case price of
        None \<Rightarrow> None
      | Some p \<Rightarrow>
          (case avg of
             None \<Rightarrow> None
           | Some a \<Rightarrow> if p \<noteq> 0 \<and> a \<noteq> 0 \<and> a > 0 then Some (p / a * 100) else None))"

text \<open>
  The function \<open>getEnergyPricesByState\<close> passes to \<open>withCache\<close>, given how the three
  sub-fetches settle and the current year and month.
\<close>

definition getEnergyPricesByState_fetchFn :: "settled \<Rightarrow> settled \<Rightarrow> settled \<Rightarrow> string \<Rightarrow> nat
    \<Rightarrow> nat \<Rightarrow> EnergyPrices option" where
  "getEnergyPricesByState_fetchFn electricityResult gasResult gasolineResult upperState
       fullYear monthIndex =
     (let electricity = priceIn electricityResult upperState;
          naturalGas = priceIn gasResult upperState;
          gasoline = priceIn gasolineResult upperState
      in if electricity = None \<and> gasoline = None then None
         else
           (let electricityAvg = (case averageOf electricityResult of None \<Rightarrow> 0 | Some a \<Rightarrow> a);
                naturalGasAvg = averageOf gasResult;
                gasolineAvg = averageOf gasolineResult
            in Some
                \<lparr>EnergyPrices.stateCode = upperState,
                 EnergyPrices.stateName =
                   orElse (map_of STATE_CODE_TO_NAME upperState) upperState,
                 EnergyPrices.year = fullYear,
                 month = monthIndex + 1,
                 electricityPrice = electricity,
                 naturalGasPrice = naturalGas,
                 gasolinePrice = gasoline,
                 electricityNationalAvg = electricityAvg,
                 naturalGasNationalAvg = naturalGasAvg,
                 gasolineNationalAvg = gasolineAvg,
                 electricityIndex =
                   (case electricity of
                      None \<Rightarrow> None
                    | Some p \<Rightarrow> if electricityAvg > 0 then Some (p / electricityAvg * 100)
                                else None),
                 naturalGasIndex = indexOf naturalGas naturalGasAvg,
                 gasolineIndex = indexOf gasoline gasolineAvg\<rparr>))"

record eiaEnv =
  eia_defaultTtl :: "APISource \<Rightarrow> int"
  eia_readEnv :: callEnv
  eia_writeEnv :: callEnv
  eia_electricity :: settled
  eia_naturalGas :: settled
  eia_gasoline :: settled
  eia_fullYear :: nat
  eia_monthIndex :: nat

text \<open>\<open>JSON.stringify({ stateCode: upperState }, ["stateCode"])\<close>\<close>

definition stateParams :: "string \<Rightarrow> string" where
  \<open>stateParams upperState = ''{"stateCode":"'' @ upperState @ ''"}''\<close>

definition getEnergyPricesByState :: "eiaEnv \<Rightarrow> string \<Rightarrow> EnergyPrices apiCache
    \<Rightarrow> (failure + EnergyPrices cacheResult) \<times> EnergyPrices apiCache" where
  "getEnergyPricesByState env code db =
     (let upperState = toUpperCase code
      in if \<not> isStateCode upperState then (Inl (APIError INVALID_PARAMS 400), db)
         else
           (case withCache (eia_defaultTtl env) (eia_readEnv env) (eia_writeEnv env)
                   (generateCacheKey (apiSourceText EIA) ''energy-state'' (stateParams upperState))
                   \<lparr>source = EIA, ttlSeconds = Some (86400 * 7)\<rparr>
                   (\<lambda>world. (Inr (getEnergyPricesByState_fetchFn (eia_electricity env)
                                     (eia_naturalGas env) (eia_gasoline env) upperState
                                     (eia_fullYear env) (eia_monthIndex env)), world))
                   db () of
              (result, db', world') \<Rightarrow> (result, db')))"

subsection \<open>An example request\<close>

definition exampleEiaEnv :: eiaEnv where
  "exampleEiaEnv =
     \<lparr>eia_defaultTtl = (\<lambda>s. 3600),
      eia_readEnv = healthyAt 1000, eia_writeEnv = healthyAt 2000,
      eia_electricity = Fulfilled (Some [(''CA'', 30), (''TX'', 15)]),
      eia_naturalGas = Rejected,
      eia_gasoline = Fulfilled (Some [(''CA'', 5), (''TX'', 3)]),
      eia_fullYear = 2026, eia_monthIndex = 10\<rparr>"

section \<open>Properties\<close>

lemma ceilDiv1000_pos_iff: "0 < ceilDiv1000 x \<longleftrightarrow> 0 < x"
  by (simp add: ceilDiv1000_def pos_imp_zdiv_neg_iff)

lemma checkRateLimits_Cons:
  "checkRateLimit t identifier config store = (r, s1) \<Longrightarrow>
   checkRateLimits ts identifier config s1 = (rs, s2) \<Longrightarrow>
   checkRateLimits (t # ts) identifier config store = (r # rs, s2)"
  by simp

lemma checkRateLimit_in_window:
  assumes "store identifier = Some \<lparr>count = c, resetTime = R\<rparr>"
    and "t \<le> R" and "c < maxRequests config"
  shows "checkRateLimit t identifier config store =
     (\<lparr>allowed = True, remaining = maxRequests config - (c + 1),
       resultResetTime = R, retryAfter = None\<rparr>,
      store(identifier \<mapsto> \<lparr>count = c + 1, resetTime = R\<rparr>))"
  using assms by (simp add: checkRateLimit_def)

lemma checks_in_window:
  assumes "store identifier = Some \<lparr>count = c, resetTime = R\<rparr>"
    and "\<forall>t \<in> set ts. t \<le> R"
    and "c + int (length ts) \<le> maxRequests config"
  shows "checkRateLimits ts identifier config store =
     (map (\<lambda>i. \<lparr>allowed = True, remaining = maxRequests config - (c + int i + 1),
              resultResetTime = R, retryAfter = None\<rparr>) [0..<length ts],
      store(identifier \<mapsto> \<lparr>count = c + int (length ts), resetTime = R\<rparr>))"
  using assms
proof (induction ts arbitrary: store c)
  case Nil
  have "store(identifier \<mapsto> \<lparr>count = c, resetTime = R\<rparr>) = store"
    using Nil.prems(1) by (rule map_upd_triv)
  then show ?case by simp
next
  case (Cons t ts)
  let ?s1 = "store(identifier \<mapsto> \<lparr>count = c + 1, resetTime = R\<rparr>)"
  have step: "checkRateLimit t identifier config store =
     (\<lparr>allowed = True, remaining = maxRequests config - (c + 1),
       resultResetTime = R, retryAfter = None\<rparr>, ?s1)"
    using Cons.prems by (intro checkRateLimit_in_window) simp_all
  have s1: "?s1 identifier = Some \<lparr>count = c + 1, resetTime = R\<rparr>" by simp
  have b: "\<forall>t \<in> set ts. t \<le> R" using Cons.prems(2) by simp
  have c: "c + 1 + int (length ts) \<le> maxRequests config" using Cons.prems(3) by simp
  have ih: "checkRateLimits ts identifier config ?s1 =
     (map (\<lambda>i. \<lparr>allowed = True, remaining = maxRequests config - (c + 1 + int i + 1),
              resultResetTime = R, retryAfter = None\<rparr>) [0..<length ts],
      ?s1(identifier \<mapsto> \<lparr>count = c + 1 + int (length ts), resetTime = R\<rparr>))"
    using s1 b c by (rule Cons.IH)
  have m: "map (\<lambda>i. \<lparr>allowed = True, remaining = maxRequests config - (c + int i + 1),
              resultResetTime = R, retryAfter = None\<rparr>) [0..<length (t # ts)]
       = \<lparr>allowed = True, remaining = maxRequests config - (c + 1),
              resultResetTime = R, retryAfter = None\<rparr> #
         map (\<lambda>i. \<lparr>allowed = True, remaining = maxRequests config - (c + 1 + int i + 1),
              resultResetTime = R, retryAfter = None\<rparr>) [0..<length ts]"
  proof -
    have "[0..<length (t # ts)] = 0 # map Suc [0..<length ts]"
      by (simp add: upt_conv_Cons map_Suc_upt del: upt_Suc)
    then show ?thesis by (simp add: o_def algebra_simps)
  qed
  have u: "?s1(identifier \<mapsto> \<lparr>count = c + 1 + int (length ts), resetTime = R\<rparr>)
      = store(identifier \<mapsto> \<lparr>count = c + int (length (t # ts)), resetTime = R\<rparr>)"
  proof -
    have "c + 1 + int (length ts) = c + int (length (t # ts))" by simp
    then show ?thesis by (simp only: fun_upd_upd)
  qed
  show ?case
    unfolding m using checkRateLimits_Cons[OF step ih] unfolding u .
qed

lemma checkRateLimits_append:
  "checkRateLimits as identifier config store = (ra, s1) \<Longrightarrow>
   checkRateLimits bs identifier config s1 = (rb, s2) \<Longrightarrow>
   checkRateLimits (as @ bs) identifier config store = (ra @ rb, s2)"
  by (induction as arbitrary: store ra) (auto split: prod.splits)

lemma checkRateLimit_fresh:
  assumes "case store identifier of None \<Rightarrow> True | Some e \<Rightarrow> resetTime e < now"
  shows "checkRateLimit now identifier config store = freshWindow now identifier config store"
  using assms by (cases "store identifier") (simp_all add: checkRateLimit_def)

lemma checkRateLimit_rejected:
  assumes "store identifier = Some \<lparr>count = c, resetTime = R\<rparr>"
    and "t \<le> R" and "maxRequests config \<le> c"
  shows "checkRateLimit t identifier config store =
     (\<lparr>allowed = False, remaining = 0, resultResetTime = R,
       retryAfter = Some (ceilDiv1000 (R - t))\<rparr>, store)"
  using assms by (simp add: checkRateLimit_def)

text \<open>
  Claim C3 (as amended).  With \<open>maxRequests = N \<ge> 1\<close>: the first check at \<open>t1\<close>, made when
  the identifier has no bucket or an elapsed one, opens a window with
  \<open>resetTime = t1 + windowMs\<close>; it and the next \<open>N - 1\<close> checks made no later than
  \<open>resetTime\<close> are allowed, the \<open>i\<close>-th reporting \<open>remaining = N - i\<close>; check \<open>N + 1\<close>, made
  no later than \<open>resetTime\<close>, is rejected with \<open>remaining = 0\<close> and
  \<open>retryAfter = ceil((resetTime - now) / 1000)\<close>, which is positive when the check is made
  before \<open>resetTime\<close> and 0 when it is made at \<open>resetTime\<close>; the first check after
  \<open>resetTime\<close> is allowed again and stores a fresh bucket with count 1 and its own reset
  time.
\<close>

theorem checkRateLimit_window:
  assumes N: "1 \<le> maxRequests config"
    and fresh: "case store identifier of None \<Rightarrow> True | Some e \<Rightarrow> resetTime e < t1"
    and len: "int (length ts) = maxRequests config - 1"
    and inwin: "\<forall>t \<in> set ts. t \<le> t1 + windowMs config"
    and rej: "tr \<le> t1 + windowMs config"
    and after: "t1 + windowMs config < ta"
  shows "checkRateLimits (t1 # ts @ [tr, ta]) identifier config store =
     (map (\<lambda>i. \<lparr>allowed = True, remaining = maxRequests config - (int i + 1),
              resultResetTime = t1 + windowMs config, retryAfter = None\<rparr>)
          [0..<Suc (length ts)]
      @ [\<lparr>allowed = False, remaining = 0, resultResetTime = t1 + windowMs config,
          retryAfter = Some (ceilDiv1000 (t1 + windowMs config - tr))\<rparr>,
         \<lparr>allowed = True, remaining = maxRequests config - 1,
          resultResetTime = ta + windowMs config, retryAfter = None\<rparr>],
      store(identifier \<mapsto> \<lparr>count = 1, resetTime = ta + windowMs config\<rparr>))
    \<and> (0 < ceilDiv1000 (t1 + windowMs config - tr) \<longleftrightarrow> tr < t1 + windowMs config)
    \<and> (ceilDiv1000 (t1 + windowMs config - tr) = 0 \<longleftrightarrow> tr = t1 + windowMs config)"
proof -
  let ?R = "t1 + windowMs config"
  let ?N = "maxRequests config"
  let ?ok = "\<lambda>i. \<lparr>allowed = True, remaining = ?N - (int i + 1),
              resultResetTime = ?R, retryAfter = None\<rparr>"
  let ?s0 = "store(identifier \<mapsto> \<lparr>count = 1, resetTime = ?R\<rparr>)"
  let ?sN = "store(identifier \<mapsto> \<lparr>count = ?N, resetTime = ?R\<rparr>)"
  have first: "checkRateLimit t1 identifier config store = (?ok 0, ?s0)"
  proof -
    have "checkRateLimit t1 identifier config store = freshWindow t1 identifier config store"
      using fresh by (rule checkRateLimit_fresh)
    then show ?thesis by (simp add: freshWindow_def)
  qed
  have s0: "?s0 identifier = Some \<lparr>count = 1, resetTime = ?R\<rparr>" by simp
  have bound: "1 + int (length ts) \<le> ?N" using len by simp
  have mid: "checkRateLimits ts identifier config ?s0 =
     (map (\<lambda>i. \<lparr>allowed = True, remaining = ?N - (1 + int i + 1),
              resultResetTime = ?R, retryAfter = None\<rparr>) [0..<length ts],
      ?s0(identifier \<mapsto> \<lparr>count = 1 + int (length ts), resetTime = ?R\<rparr>))"
    using s0 inwin bound by (rule checks_in_window)
  have sN_eq: "?s0(identifier \<mapsto> \<lparr>count = 1 + int (length ts), resetTime = ?R\<rparr>) = ?sN"
    using len by simp
  have sN: "?sN identifier = Some \<lparr>count = ?N, resetTime = ?R\<rparr>" by simp
  have rejd: "checkRateLimit tr identifier config ?sN =
     (\<lparr>allowed = False, remaining = 0, resultResetTime = ?R,
       retryAfter = Some (ceilDiv1000 (?R - tr))\<rparr>, ?sN)"
    using sN by (rule checkRateLimit_rejected) (use rej in simp_all)
  have again: "checkRateLimit ta identifier config ?sN =
     (\<lparr>allowed = True, remaining = ?N - 1, resultResetTime = ta + windowMs config,
       retryAfter = None\<rparr>,
      store(identifier \<mapsto> \<lparr>count = 1, resetTime = ta + windowMs config\<rparr>))"
    using after by (simp add: checkRateLimit_def freshWindow_def)
  have tail: "checkRateLimits [tr, ta] identifier config ?sN =
     ([\<lparr>allowed = False, remaining = 0, resultResetTime = ?R,
          retryAfter = Some (ceilDiv1000 (?R - tr))\<rparr>,
       \<lparr>allowed = True, remaining = ?N - 1,
          resultResetTime = ta + windowMs config, retryAfter = None\<rparr>],
      store(identifier \<mapsto> \<lparr>count = 1, resetTime = ta + windowMs config\<rparr>))"
    by (simp add: rejd again)
  have rest: "checkRateLimits (ts @ [tr, ta]) identifier config ?s0 =
     (map (\<lambda>i. \<lparr>allowed = True, remaining = ?N - (1 + int i + 1),
              resultResetTime = ?R, retryAfter = None\<rparr>) [0..<length ts]
      @ [\<lparr>allowed = False, remaining = 0, resultResetTime = ?R,
          retryAfter = Some (ceilDiv1000 (?R - tr))\<rparr>,
         \<lparr>allowed = True, remaining = ?N - 1,
          resultResetTime = ta + windowMs config, retryAfter = None\<rparr>],
      store(identifier \<mapsto> \<lparr>count = 1, resetTime = ta + windowMs config\<rparr>))"
    using mid tail unfolding sN_eq by (rule checkRateLimits_append)
  have idx: "map ?ok [0..<Suc (length ts)] =
      ?ok 0 # map (\<lambda>i. \<lparr>allowed = True, remaining = ?N - (1 + int i + 1),
              resultResetTime = ?R, retryAfter = None\<rparr>) [0..<length ts]"
  proof -
    have "[0..<Suc (length ts)] = 0 # map Suc [0..<length ts]"
      by (simp add: upt_conv_Cons map_Suc_upt del: upt_Suc)
    then show ?thesis by (simp add: o_def algebra_simps)
  qed
  have run: "checkRateLimits (t1 # ts @ [tr, ta]) identifier config store =
     (map ?ok [0..<Suc (length ts)]
      @ [\<lparr>allowed = False, remaining = 0, resultResetTime = ?R,
          retryAfter = Some (ceilDiv1000 (?R - tr))\<rparr>,
         \<lparr>allowed = True, remaining = ?N - 1,
          resultResetTime = ta + windowMs config, retryAfter = None\<rparr>],
      store(identifier \<mapsto> \<lparr>count = 1, resetTime = ta + windowMs config\<rparr>))"
    unfolding idx using checkRateLimits_Cons[OF first rest] by simp
  have pos: "0 < ceilDiv1000 (?R - tr) \<longleftrightarrow> tr < ?R"
    by (simp add: ceilDiv1000_pos_iff)
  have zero: "ceilDiv1000 (?R - tr) = 0 \<longleftrightarrow> tr = ?R"
  proof
    assume "ceilDiv1000 (?R - tr) = 0"
    then have "\<not> 0 < ceilDiv1000 (?R - tr)" by simp
    then have "\<not> tr < ?R" using pos by simp
    then show "tr = ?R" using rej by simp
  next
    assume "tr = ?R"
    then show "ceilDiv1000 (?R - tr) = 0" by (simp add: ceilDiv1000_def)
  qed
  show ?thesis using run pos zero by (intro conjI)
qed

text \<open>
  The amended claim C3 at \<open>N = 2\<close> and a one-second window opened at 0: checks at 0, 10, 20
  and 2000 ms, and the same with the third check at 1000 ms, the window's \<open>resetTime\<close>.
\<close>

theorem checkRateLimit_window_witness:
  "checkRateLimits [0, 10, 20, 2000] ''ip'' \<lparr>windowMs = 1000, maxRequests = 2\<rparr> Map.empty =
     ([\<lparr>allowed = True, remaining = 1, resultResetTime = 1000, retryAfter = None\<rparr>,
       \<lparr>allowed = True, remaining = 0, resultResetTime = 1000, retryAfter = None\<rparr>,
       \<lparr>allowed = False, remaining = 0, resultResetTime = 1000, retryAfter = Some 1\<rparr>,
       \<lparr>allowed = True, remaining = 1, resultResetTime = 3000, retryAfter = None\<rparr>],
      [''ip'' \<mapsto> \<lparr>count = 1, resetTime = 3000\<rparr>])
   \<and> checkRateLimits [0, 10, 1000, 2000] ''ip'' \<lparr>windowMs = 1000, maxRequests = 2\<rparr> Map.empty =
     ([\<lparr>allowed = True, remaining = 1, resultResetTime = 1000, retryAfter = None\<rparr>,
       \<lparr>allowed = True, remaining = 0, resultResetTime = 1000, retryAfter = None\<rparr>,
       \<lparr>allowed = False, remaining = 0, resultResetTime = 1000, retryAfter = Some 0\<rparr>,
       \<lparr>allowed = True, remaining = 1, resultResetTime = 3000, retryAfter = None\<rparr>],
      [''ip'' \<mapsto> \<lparr>count = 1, resetTime = 3000\<rparr>])"
proof -
  have before: "checkRateLimits [0, 10, 20, 2000] ''ip'' \<lparr>windowMs = 1000, maxRequests = 2\<rparr>
      Map.empty =
     ([\<lparr>allowed = True, remaining = 1, resultResetTime = 1000, retryAfter = None\<rparr>,
       \<lparr>allowed = True, remaining = 0, resultResetTime = 1000, retryAfter = None\<rparr>,
       \<lparr>allowed = False, remaining = 0, resultResetTime = 1000, retryAfter = Some 1\<rparr>,
       \<lparr>allowed = True, remaining = 1, resultResetTime = 3000, retryAfter = None\<rparr>],
      [''ip'' \<mapsto> \<lparr>count = 1, resetTime = 3000\<rparr>])"
    using checkRateLimit_window[where config = "\<lparr>windowMs = 1000, maxRequests = 2\<rparr>"
        and store = Map.empty and ?identifier = "''ip''" and ?t1.0 = 0 and ts = "[10]"
        and tr = 20 and ta = 2000]
    by (simp add: ceilDiv1000_def)
  have at: "checkRateLimits [0, 10, 1000, 2000] ''ip'' \<lparr>windowMs = 1000, maxRequests = 2\<rparr>
      Map.empty =
     ([\<lparr>allowed = True, remaining = 1, resultResetTime = 1000, retryAfter = None\<rparr>,
       \<lparr>allowed = True, remaining = 0, resultResetTime = 1000, retryAfter = None\<rparr>,
       \<lparr>allowed = False, remaining = 0, resultResetTime = 1000, retryAfter = Some 0\<rparr>,
       \<lparr>allowed = True, remaining = 1, resultResetTime = 3000, retryAfter = None\<rparr>],
      [''ip'' \<mapsto> \<lparr>count = 1, resetTime = 3000\<rparr>])"
    using checkRateLimit_window[where config = "\<lparr>windowMs = 1000, maxRequests = 2\<rparr>"
        and store = Map.empty and ?identifier = "''ip''" and ?t1.0 = 0 and ts = "[10]"
        and tr = 1000 and ta = 2000]
    by (simp add: ceilDiv1000_def)
  show ?thesis using before at by (rule conjI)
qed

text \<open>
  Claim C3 as stated fails in two cases.  For \<open>N = 0\<close> the sequence of \<open>N + 1 = 1\<close> checks
  consists of a check that opens a window, and that check is allowed whatever the limit is.
  For \<open>N = 1\<close> and a one-second window opened at 0, a second check at 1000 ms is still inside
  the window (the window has elapsed only when \<open>resetTime < now\<close>); it is rejected, with
  \<open>retryAfter = 0\<close>.
\<close>

theorem checkRateLimit_window_counterexample:
  "allowed (fst (checkRateLimit 0 ''ip'' \<lparr>windowMs = 60000, maxRequests = 0\<rparr> Map.empty))
   \<and> fst (checkRateLimits [0, 1000] ''ip'' \<lparr>windowMs = 1000, maxRequests = 1\<rparr> Map.empty) =
       [\<lparr>allowed = True, remaining = 0, resultResetTime = 1000, retryAfter = None\<rparr>,
        \<lparr>allowed = False, remaining = 0, resultResetTime = 1000, retryAfter = Some 0\<rparr>]"
  by (simp add: checkRateLimit_def freshWindow_def ceilDiv1000_def)

lemma checkRateLimit_keeps_limit:
  assumes "1 \<le> maxRequests config" and "countsWithinLimit config store"
  shows "countsWithinLimit config (snd (checkRateLimit now ident config store))"
  using assms
  by (auto simp: countsWithinLimit_def checkRateLimit_def freshWindow_def
           split: option.splits if_splits)

lemma cleanup_keeps_limit:
  "countsWithinLimit config store \<Longrightarrow> countsWithinLimit config (cleanup now store)"
  by (auto simp: countsWithinLimit_def cleanup_def split: option.splits if_splits)

lemma runLimiter_keeps_limit:
  assumes "1 \<le> maxRequests config" and "countsWithinLimit config store"
  shows "countsWithinLimit config (runLimiter es config store)"
  using assms(2)
proof (induction es arbitrary: store)
  case Nil
  then show ?case by simp
next
  case (Cons e es)
  show ?case
  proof (cases e)
    case (Check now ident)
    then show ?thesis
      using Cons.IH[OF checkRateLimit_keeps_limit[OF assms(1) Cons.prems]] by simp
  next
    case (Cleanup now)
    then show ?thesis
      using Cons.IH[OF cleanup_keeps_limit[OF Cons.prems]] by simp
  qed
qed

lemma checkRateLimit_rejected_unchanged:
  "\<not> allowed (fst (checkRateLimit now ident config store)) \<Longrightarrow>
   snd (checkRateLimit now ident config store) = store"
  by (auto simp: checkRateLimit_def freshWindow_def split: option.splits if_splits)

lemma checkRateLimit_allowed_effect:
  "allowed (fst (checkRateLimit now ident config store)) \<Longrightarrow>
   snd (checkRateLimit now ident config store) =
     (case store ident of
        None \<Rightarrow> store(ident \<mapsto> \<lparr>count = 1, resetTime = now + windowMs config\<rparr>)
      | Some entry \<Rightarrow>
          if resetTime entry < now
          then store(ident \<mapsto> \<lparr>count = 1, resetTime = now + windowMs config\<rparr>)
          else store(ident \<mapsto> \<lparr>count = count entry + 1, resetTime = resetTime entry\<rparr>))"
  by (auto simp: checkRateLimit_def freshWindow_def split: option.splits if_splits)

text \<open>
  Claim C10 (as amended).  With \<open>maxRequests \<ge> 1\<close> fixed, any sequence of checks (for any
  identifiers, at any clock readings) and sweeps keeps every stored count at most
  \<open>maxRequests\<close>.  A rejected check returns the table unchanged; an allowed check either
  stores a fresh bucket with count 1 (no bucket, or an elapsed one) or adds one to the count of
  the live bucket and keeps its reset time.
\<close>

theorem rate_limit_count_bounded:
  assumes "1 \<le> maxRequests config" and "countsWithinLimit config store"
  shows "countsWithinLimit config (runLimiter es config store) \<and>
    (\<forall>now ident s. \<not> allowed (fst (checkRateLimit now ident config s)) \<longrightarrow>
        snd (checkRateLimit now ident config s) = s) \<and>
    (\<forall>now ident s. allowed (fst (checkRateLimit now ident config s)) \<longrightarrow>
        snd (checkRateLimit now ident config s) =
          (case s ident of
             None \<Rightarrow> s(ident \<mapsto> \<lparr>count = 1, resetTime = now + windowMs config\<rparr>)
           | Some entry \<Rightarrow>
               if resetTime entry < now
               then s(ident \<mapsto> \<lparr>count = 1, resetTime = now + windowMs config\<rparr>)
               else s(ident \<mapsto> \<lparr>count = count entry + 1, resetTime = resetTime entry\<rparr>)))"
  using runLimiter_keeps_limit[OF assms] checkRateLimit_rejected_unchanged
    checkRateLimit_allowed_effect by blast

text \<open>The amended claim C10 on a run with two identifiers, a rejected check and a sweep.\<close>

theorem rate_limit_count_bounded_witness:
  "runLimiter [Check 0 ''a'', Check 1 ''a'', Check 2 ''b'', Cleanup 5000, Check 5001 ''b'']
      \<lparr>windowMs = 1000, maxRequests = 1\<rparr> Map.empty ''b''
     = Some \<lparr>count = 1, resetTime = 6001\<rparr>
   \<and> countsWithinLimit \<lparr>windowMs = 1000, maxRequests = 1\<rparr>
      (runLimiter [Check 0 ''a'', Check 1 ''a'', Check 2 ''b'', Cleanup 5000, Check 5001 ''b'']
         \<lparr>windowMs = 1000, maxRequests = 1\<rparr> Map.empty)
   \<and> snd (checkRateLimit 1 ''a'' \<lparr>windowMs = 1000, maxRequests = 1\<rparr>
          [''a'' \<mapsto> \<lparr>count = 1, resetTime = 1000\<rparr>])
       = [''a'' \<mapsto> \<lparr>count = 1, resetTime = 1000\<rparr>]"
proof -
  have h1: "1 \<le> maxRequests \<lparr>windowMs = 1000, maxRequests = 1\<rparr>" by simp
  have h2: "countsWithinLimit \<lparr>windowMs = 1000, maxRequests = 1\<rparr> Map.empty"
    by (simp add: countsWithinLimit_def)
  have r: "\<not> allowed (fst (checkRateLimit 1 ''a'' \<lparr>windowMs = 1000, maxRequests = 1\<rparr>
          [''a'' \<mapsto> \<lparr>count = 1, resetTime = 1000\<rparr>]))"
    by (simp add: checkRateLimit_def)
  have e: "runLimiter [Check 0 ''a'', Check 1 ''a'', Check 2 ''b'', Cleanup 5000, Check 5001 ''b'']
      \<lparr>windowMs = 1000, maxRequests = 1\<rparr> Map.empty ''b''
     = Some \<lparr>count = 1, resetTime = 6001\<rparr>"
    by (simp add: checkRateLimit_def freshWindow_def cleanup_def)
  show ?thesis
    using rate_limit_count_bounded[OF h1 h2] r e by blast
qed

text \<open>
  Claim C10 as stated fails for \<open>maxRequests = 0\<close>: the check that opens a window stores
  count 1 without looking at the limit.
\<close>

theorem rate_limit_count_zero_limit_counterexample:
  "runLimiter [Check 0 ''ip''] \<lparr>windowMs = 60000, maxRequests = 0\<rparr> Map.empty ''ip''
     = Some \<lparr>count = 1, resetTime = 60000\<rparr>
   \<and> \<not> countsWithinLimit \<lparr>windowMs = 60000, maxRequests = 0\<rparr>
       (runLimiter [Check 0 ''ip''] \<lparr>windowMs = 60000, maxRequests = 0\<rparr> Map.empty)"
  by (auto simp: countsWithinLimit_def checkRateLimit_def freshWindow_def)

lemma getCachedData_api_live:
  assumes "envStatus env = Healthy"
    and "db (src, key) = Some row"
    and "expires_at row = Time t" and "firstReading (envClock env) < t"
  shows "getCachedData_api env db src key =
           Some (data row, cacheAgeOf (secondReading (envClock env)) (created_at row))"
  using assms
  by (simp add: getCachedData_api_def getCachedData_api_try_def selectSingle_def expiresAfter_def)

lemma setCachedData_api_stored:
  assumes "envStatus env = Healthy"
    and "validDate (firstReading (envClock env) + ttlOf dflt config * 1000)"
  shows "setCachedData_api dflt env db key (Some p) config (source config, key) =
     Some \<lparr>data = Some p, created_at = Time (secondReading (envClock env)),
           expires_at = Time (firstReading (envClock env) + ttlOf dflt config * 1000)\<rparr>"
  using assms by (simp add: setCachedData_api_def)

text \<open>
  Claim C1.  A payload \<open>p\<close> that is not null is written by \<open>setCachedData\<close> under
  \<open>(source, key)\<close> with the store answering, and the expiry it computes is a date.  A read of
  \<open>(source, key)\<close> whose query runs before that expiry, with the store answering, returns
  exactly \<open>p\<close> with the age \<open>floor((read time - write time) / 1000)\<close>, which is not negative
  when the clock has not gone back.  Through \<open>withCache\<close> the same read gives
  \<open>cached = true\<close> with that age, and \<open>fetchFn\<close> is not run.
\<close>

theorem cache_set_then_get:
  assumes written: "envStatus writeEnv = Healthy"
    and inRange: "validDate (firstReading (envClock writeEnv) + ttlOf dflt config * 1000)"
    and readable: "envStatus readEnv = Healthy"
    and withinTtl: "firstReading (envClock readEnv)
                      < firstReading (envClock writeEnv) + ttlOf dflt config * 1000"
    and later: "secondReading (envClock writeEnv) \<le> secondReading (envClock readEnv)"
    and db': "db' = setCachedData_api dflt writeEnv db key (Some p) config"
    and age: "age = (secondReading (envClock readEnv) - secondReading (envClock writeEnv)) div 1000"
  shows "getCachedData_api readEnv db' (source config) key = Some (Some p, Time age)
       \<and> 0 \<le> age
       \<and> withCache dflt readEnv laterEnv key config fetchFn db' world =
             (Inr \<lparr>resultData = Some p, cached = True, cacheAge = Some (Time age)\<rparr>, db', world)"
proof -
  let ?row = "\<lparr>data = Some p, created_at = Time (secondReading (envClock writeEnv)),
           expires_at = Time (firstReading (envClock writeEnv) + ttlOf dflt config * 1000)\<rparr>"
  have stored: "db' (source config, key) = Some ?row"
    unfolding db' using written inRange by (rule setCachedData_api_stored)
  have "getCachedData_api readEnv db' (source config) key =
          Some (data ?row, cacheAgeOf (secondReading (envClock readEnv)) (created_at ?row))"
    using readable stored _ withinTtl by (rule getCachedData_api_live) simp
  then have got: "getCachedData_api readEnv db' (source config) key = Some (Some p, Time age)"
    by (simp add: cacheAgeOf_def age)
  have nonneg: "0 \<le> age"
    unfolding age using later by (simp add: pos_imp_zdiv_nonneg_iff)
  have hit: "withCache dflt readEnv laterEnv key config fetchFn db' world =
             (Inr \<lparr>resultData = Some p, cached = True, cacheAge = Some (Time age)\<rparr>, db', world)"
    by (simp add: withCache_def got)
  show ?thesis using got nonneg hit by simp
qed

definition day :: int where "day = 86400"

text \<open>Claim C1 at a write at 1 s with a TTL of 60 s and a read at 5 s.\<close>

theorem cache_set_then_get_witness:
  "withCache (\<lambda>s. 3600)
     \<lparr>envStatus = Healthy, envClock = \<lparr>firstReading = 5000, secondReading = 5002\<rparr>\<rparr>
     \<lparr>envStatus = Healthy, envClock = \<lparr>firstReading = 5003, secondReading = 5004\<rparr>\<rparr>
     ''bea:rpp-states:{}'' \<lparr>source = BEA, ttlSeconds = Some 60\<rparr>
     (\<lambda>sent. (Inl ''upstream down'', sent @ [''query'']))
     (setCachedData_api (\<lambda>s. 3600)
        \<lparr>envStatus = Healthy, envClock = \<lparr>firstReading = 1000, secondReading = 1001\<rparr>\<rparr>
        Map.empty ''bea:rpp-states:{}'' (Some (42::nat)) \<lparr>source = BEA, ttlSeconds = Some 60\<rparr>)
     []
   = (Inr \<lparr>resultData = Some 42, cached = True, cacheAge = Some (Time 4)\<rparr>,
      [(BEA, ''bea:rpp-states:{}'') \<mapsto>
         \<lparr>data = Some 42, created_at = Time 1001, expires_at = Time 61000\<rparr>],
      [])"
proof -
  let ?w = "\<lparr>envStatus = Healthy, envClock = \<lparr>firstReading = 1000, secondReading = 1001\<rparr>\<rparr>"
  let ?r = "\<lparr>envStatus = Healthy, envClock = \<lparr>firstReading = 5000, secondReading = 5002\<rparr>\<rparr>"
  let ?l = "\<lparr>envStatus = Healthy, envClock = \<lparr>firstReading = 5003, secondReading = 5004\<rparr>\<rparr>"
  let ?c = "\<lparr>source = BEA, ttlSeconds = Some 60\<rparr>"
  have h1: "envStatus ?w = Healthy" by simp
  have h2: "validDate (firstReading (envClock ?w) + ttlOf (\<lambda>s. 3600) ?c * 1000)"
    by (simp add: validDate_def ttlOf_def)
  have h3: "envStatus ?r = Healthy" by simp
  have h4: "firstReading (envClock ?r) < firstReading (envClock ?w) + ttlOf (\<lambda>s. 3600) ?c * 1000"
    by (simp add: ttlOf_def)
  have h5: "secondReading (envClock ?w) \<le> secondReading (envClock ?r)" by simp
  have db: "setCachedData_api (\<lambda>s. 3600) ?w Map.empty ''bea:rpp-states:{}'' (Some (42::nat)) ?c
      = [(BEA, ''bea:rpp-states:{}'') \<mapsto>
         \<lparr>data = Some 42, created_at = Time 1001, expires_at = Time 61000\<rparr>]"
    by (simp add: setCachedData_api_def validDate_def ttlOf_def)
  show ?thesis
    using cache_set_then_get[OF h1 h2 h3 h4 h5 refl refl,
        where db = Map.empty and key = "''bea:rpp-states:{}''" and p = "42::nat"
          and laterEnv = ?l
          and fetchFn = "\<lambda>sent. (Inl ''upstream down'', sent @ [''query''])" and world = "[]"]
    by (simp add: db)
qed

lemma getCachedData_cases:
  "getCachedData st now db src key =
     (if key \<noteq> [] \<and> st = Healthy
      then case db (src, key) of
         None \<Rightarrow> None
       | Some row \<Rightarrow>
           (case expires_at row of
              NaN \<Rightarrow> None
            | Time t \<Rightarrow> if now < t then data row else None)
      else None)"
  by (cases st; cases src)
     (auto simp: getCachedData_def getCachedData_try_def selectSingle_def isCacheValid_def
        isValidAPISource_def split: option.splits timeValue.splits)

lemma getCachedData_api_cases:
  "getCachedData_api env db src key =
     (if envStatus env = Healthy
      then case db (src, key) of
         None \<Rightarrow> None
       | Some row \<Rightarrow>
           (case expires_at row of
              NaN \<Rightarrow> None
            | Time t \<Rightarrow>
                if firstReading (envClock env) < t
                then Some (data row, cacheAgeOf (secondReading (envClock env)) (created_at row))
                else None)
      else None)"
  by (cases "envStatus env")
     (auto simp: getCachedData_api_def getCachedData_api_try_def selectSingle_def expiresAfter_def
        split: option.splits timeValue.splits)

text \<open>
  Claim C2 (as amended).  Neither reader throws: the result is always \<open>null\<close> or a value.
  \<open>getCachedData\<close> of lib/cache.ts returns \<open>null\<close> for an empty key, when the store
  answers with an error or throws, when no row exists, when \<open>expires_at\<close> is not a date
  or is not after now; otherwise it returns the row's payload.  \<open>getCachedData\<close> of
  lib/api/cache.ts returns \<open>null\<close> when the store answers with an error or throws and
  when no row with \<open>expires_at\<close> after now exists; otherwise it returns the row's payload
  with \<open>cacheAge = floor((now - created_at) / 1000)\<close>.
\<close>

theorem cache_read_total:
  "getCachedData st now db src key =
     (if key \<noteq> [] \<and> st = Healthy
      then case db (src, key) of
         None \<Rightarrow> None
       | Some row \<Rightarrow>
           (case expires_at row of
              NaN \<Rightarrow> None
            | Time t \<Rightarrow> if now < t then data row else None)
      else None)
   \<and> getCachedData_api env db src key =
     (if envStatus env = Healthy
      then case db (src, key) of
         None \<Rightarrow> None
       | Some row \<Rightarrow>
           (case expires_at row of
              NaN \<Rightarrow> None
            | Time t \<Rightarrow>
                if firstReading (envClock env) < t
                then Some (data row, cacheAgeOf (secondReading (envClock env)) (created_at row))
                else None)
      else None)"
  using getCachedData_cases getCachedData_api_cases by (rule conjI)

text \<open>
  Claim C2 as stated fails for the empty key: a row stored under it that has not expired is
  not returned by \<open>getCachedData\<close> of lib/cache.ts, though the store answers.
\<close>

theorem cache_read_empty_key_counterexample:
  "getCachedData Healthy 0
     [(HUD, []) \<mapsto> \<lparr>data = Some (1::nat), created_at = Time 0, expires_at = Time 1000\<rparr>]
     HUD ([] :: string) = None"
  by (simp add: getCachedData_def getCachedData_try_def)


lemma insertByCmp_insort_key:
  "insertByCmp compareOverall x ys = insort_key overallKey x ys"
  by (induction ys) (simp_all add: compareOverall_def overallKey_def)

lemma sortByCmp_sort_key: "sortByCmp compareOverall xs = sort_key overallKey xs"
  by (induction xs) (simp_all add: sortByCmp_def insertByCmp_insort_key)

lemma sortByCmp_descending:
  "sorted_wrt (\<lambda>a b. the (overall a) \<ge> the (overall b)) (sortByCmp compareOverall xs)"
proof -
  have "sorted (map overallKey (sort_key overallKey xs))" by (rule sorted_sort_key)
  then have "sorted_wrt (\<lambda>a b. overallKey a \<le> overallKey b) (sort_key overallKey xs)"
    by (simp add: sorted_map)
  then show ?thesis by (simp add: sortByCmp_sort_key overallKey_def)
qed

lemma sortByCmp_mset: "mset (sortByCmp compareOverall xs) = mset xs"
  by (simp add: sortByCmp_sort_key)

lemma sortByCmp_stable:
  "filter (\<lambda>r. the (overall r) = v) (sortByCmp compareOverall xs)
     = filter (\<lambda>r. the (overall r) = v) xs"
proof -
  have "filter (\<lambda>r. overallKey r = - v) (sort_key overallKey xs)
          = filter (\<lambda>r. overallKey r = - v) xs"
    by (rule sort_key_stable)
  then show ?thesis by (simp add: sortByCmp_sort_key overallKey_def)
qed

lemma assignRanks_length: "length (assignRanks xs) = length xs"
  by (simp add: assignRanks_def)

lemma assignRanks_nth:
  "i < length xs \<Longrightarrow> assignRanks xs ! i = (xs ! i)\<lparr>rank := Some (i + 1)\<rparr>"
  by (simp add: assignRanks_def nth_enumerate_eq)

lemma assignRanks_clear:
  "map (\<lambda>r. r\<lparr>rank := None\<rparr>) (assignRanks xs) = map (\<lambda>r. r\<lparr>rank := None\<rparr>) xs"
  by (rule nth_equalityI) (simp_all add: assignRanks_length assignRanks_nth)

lemma assignRanks_overall: "map overall (assignRanks xs) = map overall xs"
  by (rule nth_equalityI) (simp_all add: assignRanks_length assignRanks_nth)

lemma assignRanks_rank: "map rank (assignRanks xs) = map Some [1..<Suc (length xs)]"
  by (rule nth_equalityI) (simp_all add: assignRanks_length assignRanks_nth nth_upt del: upt_Suc)

lemma applyLine_rank: "rank (applyLine c x r) = rank r"
  by (cases c) (simp_all add: applyLine_def)

lemma mapModify_rank_none:
  assumes "\<forall>v \<in> set (map snd m). rank v = None"
  shows "\<forall>v \<in> set (map snd (mapModify m k (applyLine c x))). rank v = None"
proof -
  have "map rank (map snd (mapModify m k (applyLine c x))) = map rank (map snd m)"
    by (simp add: mapModify_def case_prod_beta applyLine_rank)
  moreover have "\<forall>r \<in> set (map rank (map snd m)). r = None"
    using assms by simp
  ultimately have "\<forall>r \<in> set (map rank (map snd (mapModify m k (applyLine c x)))). r = None"
    by simp
  then show ?thesis by simp
qed

lemma parseItem_rank_none:
  assumes "\<forall>v \<in> set (map snd m). rank v = None"
  shows "\<forall>v \<in> set (map snd (parseItem y m item)). rank v = None"
proof (cases "TimePeriod item \<noteq> y")
  case True
  then show ?thesis using assms by (simp add: parseItem_def)
next
  case same: False
  show ?thesis
  proof (cases "DataValue item")
    case None
    then show ?thesis using assms same by (simp add: parseItem_def)
  next
    case (Some x)
    let ?m1 = "if \<not> mapHas m (GeoFips item)
               then mapSetNew m (GeoFips item) (newRpp item y) else m"
    have "\<forall>v \<in> set (map snd ?m1). rank v = None"
      using assms by (auto simp: mapSetNew_def newRpp_def)
    then have "\<forall>v \<in> set (map snd (mapModify ?m1 (GeoFips item) (applyLine (LineCode item) x))).
                 rank v = None"
      by (rule mapModify_rank_none)
    then show ?thesis using same Some by (simp add: parseItem_def Let_def)
  qed
qed

lemma foldl_parseItem_rank_none:
  "\<forall>v \<in> set (map snd m). rank v = None \<Longrightarrow>
   \<forall>v \<in> set (map snd (foldl (parseItem y) m items)). rank v = None"
proof (induction items arbitrary: m)
  case Nil
  then show ?case by simp
next
  case (Cons item items)
  have "\<forall>v \<in> set (map snd (parseItem y m item)). rank v = None"
    using Cons.prems by (rule parseItem_rank_none)
  then have "\<forall>v \<in> set (map snd (foldl (parseItem y) (parseItem y m item) items)). rank v = None"
    by (rule Cons.IH)
  then show ?case by simp
qed

lemma completeRecords_parse:
  assumes "r \<in> set (completeRecords (parseBEAResponse response y))"
  shows "rank r = None \<and> overall r \<noteq> None"
proof -
  have "\<forall>v \<in> set (map snd (parseBEAResponse response y)). rank v = None"
  proof (cases response)
    case None
    then show ?thesis by (simp add: parseBEAResponse_def)
  next
    case (Some items)
    have "\<forall>v \<in> set (map snd (foldl (parseItem y) [] items)). rank v = None"
      by (rule foldl_parseItem_rank_none) simp
    then show ?thesis using Some by (simp add: parseBEAResponse_def)
  qed
  then show ?thesis using assms by (auto simp: completeRecords_def)
qed

lemma rankByOverall_props:
  assumes "\<forall>r \<in> set batch. rank r = None \<and> overall r \<noteq> None"
    and "out = rankByOverall batch"
  shows "sorted_wrt (\<ge>) (map (\<lambda>r. the (overall r)) out)"
    and "map rank out = map Some [1..<Suc (length out)]"
    and "mset (map (\<lambda>r. r\<lparr>rank := None\<rparr>) out) = mset batch"
    and "\<forall>v. filter (\<lambda>r. overall r = Some v) (map (\<lambda>r. r\<lparr>rank := None\<rparr>) out)
              = filter (\<lambda>r. overall r = Some v) batch"
proof -
  let ?sorted = "sortByCmp compareOverall batch"
  have out: "out = assignRanks ?sorted" using assms(2) by (simp add: rankByOverall_def)
  have set_sorted: "set ?sorted = set batch"
    by (simp add: sortByCmp_sort_key)
  have norank: "map (\<lambda>r. r\<lparr>rank := None\<rparr>) ?sorted = ?sorted"
  proof (rule map_idI)
    fix r assume "r \<in> set ?sorted"
    then have "rank r = None" using assms(1) set_sorted by simp
    then show "r\<lparr>rank := None\<rparr> = r" by simp
  qed
  have cleared: "map (\<lambda>r. r\<lparr>rank := None\<rparr>) out = ?sorted"
    by (simp add: out assignRanks_clear norank)
  have "map (\<lambda>r. the (overall r)) out = map the (map overall (assignRanks ?sorted))"
    unfolding out by (simp add: o_def)
  also have "\<dots> = map the (map overall ?sorted)"
    by (simp only: assignRanks_overall)
  also have "\<dots> = map (\<lambda>r. the (overall r)) ?sorted"
    by (simp add: o_def)
  finally have "map (\<lambda>r. the (overall r)) out = map (\<lambda>r. the (overall r)) ?sorted" .
  moreover have "sorted_wrt (\<ge>) (map (\<lambda>r. the (overall r)) ?sorted)"
    using sortByCmp_descending[of batch] by (simp add: sorted_wrt_map)
  ultimately show "sorted_wrt (\<ge>) (map (\<lambda>r. the (overall r)) out)" by simp
  show "map rank out = map Some [1..<Suc (length out)]"
    unfolding out by (simp only: assignRanks_rank assignRanks_length)
  show "mset (map (\<lambda>r. r\<lparr>rank := None\<rparr>) out) = mset batch"
    by (simp only: cleared sortByCmp_mset)
  show "\<forall>v. filter (\<lambda>r. overall r = Some v) (map (\<lambda>r. r\<lparr>rank := None\<rparr>) out)
              = filter (\<lambda>r. overall r = Some v) batch"
  proof
    fix v
    have a: "filter (\<lambda>r. overall r = Some v) ?sorted = filter (\<lambda>r. the (overall r) = v) ?sorted"
      using assms(1) set_sorted by (intro filter_cong) auto
    have b: "filter (\<lambda>r. overall r = Some v) batch = filter (\<lambda>r. the (overall r) = v) batch"
      using assms(1) by (intro filter_cong) auto
    show "filter (\<lambda>r. overall r = Some v) (map (\<lambda>r. r\<lparr>rank := None\<rparr>) out)
              = filter (\<lambda>r. overall r = Some v) batch"
      unfolding cleared a b by (rule sortByCmp_stable)
  qed
qed

lemma getRPPAllStates_fetchFn_ok:
  assumes "upstream \<lparr>TableName = ''SARPP'', GeoFipsParam = ''STATE'', YearParam = showNat dataYear\<rparr>
             = HttpOk response"
  shows "getRPPAllStates_fetchFn upstream dataYear sent =
     (Inr (Some (rankByOverall (completeRecords (parseBEAResponse response (showNat dataYear))))),
      sent @ [\<lparr>TableName = ''SARPP'', GeoFipsParam = ''STATE'', YearParam = showNat dataYear\<rparr>])"
  using assms by (simp add: getRPPAllStates_fetchFn_def Let_def)

lemma getRPPAllMetros_fetchFn_ok:
  assumes "upstream \<lparr>TableName = ''MARPP'', GeoFipsParam = ''MSA'', YearParam = showNat dataYear\<rparr>
             = HttpOk response"
  shows "getRPPAllMetros_fetchFn upstream dataYear sent =
     (Inr (Some (rankByOverall (completeRecords (parseBEAResponse response (showNat dataYear))))),
      sent @ [\<lparr>TableName = ''MARPP'', GeoFipsParam = ''MSA'', YearParam = showNat dataYear\<rparr>])"
  using assms by (simp add: getRPPAllMetros_fetchFn_def Let_def)

text \<open>
  Claim C4.  When the upstream answers the query of \<open>getRPPAllStates\<close> or of
  \<open>getRPPAllMetros\<close>, the fetch returns the records that have an \<open>overall\<close> value, sorted
  by \<open>overall\<close> descending, each with \<open>rank\<close> equal to its 1-based position; the list is a
  permutation of those records, and records with equal \<open>overall\<close> keep the order in which the
  response introduced them.
\<close>

theorem rpp_batch_ranked:
  assumes which:
      "(fetchFn, query) = (getRPPAllStates_fetchFn,
          \<lparr>TableName = ''SARPP'', GeoFipsParam = ''STATE'', YearParam = showNat dataYear\<rparr>)
       \<or> (fetchFn, query) = (getRPPAllMetros_fetchFn,
          \<lparr>TableName = ''MARPP'', GeoFipsParam = ''MSA'', YearParam = showNat dataYear\<rparr>)"
    and reply: "upstream query = HttpOk response"
    and batch: "batch = completeRecords (parseBEAResponse response (showNat dataYear))"
    and out: "out = rankByOverall batch"
  shows "fetchFn upstream dataYear sent = (Inr (Some out), sent @ [query])
     \<and> sorted_wrt (\<ge>) (map (\<lambda>r. the (overall r)) out)
     \<and> map rank out = map Some [1..<Suc (length out)]
     \<and> mset (map (\<lambda>r. r\<lparr>rank := None\<rparr>) out) = mset batch
     \<and> (\<forall>v. filter (\<lambda>r. overall r = Some v) (map (\<lambda>r. r\<lparr>rank := None\<rparr>) out)
              = filter (\<lambda>r. overall r = Some v) batch)"
proof -
  have fetched: "fetchFn upstream dataYear sent = (Inr (Some out), sent @ [query])"
    using which
  proof
    assume "(fetchFn, query) = (getRPPAllStates_fetchFn,
          \<lparr>TableName = ''SARPP'', GeoFipsParam = ''STATE'', YearParam = showNat dataYear\<rparr>)"
    then show ?thesis
      using getRPPAllStates_fetchFn_ok[of upstream dataYear response sent] reply batch out by simp
  next
    assume "(fetchFn, query) = (getRPPAllMetros_fetchFn,
          \<lparr>TableName = ''MARPP'', GeoFipsParam = ''MSA'', YearParam = showNat dataYear\<rparr>)"
    then show ?thesis
      using getRPPAllMetros_fetchFn_ok[of upstream dataYear response sent] reply batch out by simp
  qed
  have inv: "\<forall>r \<in> set batch. rank r = None \<and> overall r \<noteq> None"
    unfolding batch using completeRecords_parse by blast
  note props = rankByOverall_props[OF inv out]
  show ?thesis
    using fetched props by blast
qed

lemma showNat_2022: "showNat 2022 = ''2022''"
  by (simp add: showNat.simps digitChars_def)

lemma parse_2022: "parseInt ''2022'' = Some 2022"
  by (simp add: parseInt_def digitValue_def digitChars_def)

lemma example_batch:
  "completeRecords (parseBEAResponse (Some exampleItems) ''2022'') =
     [exampleRpp ''06000'' ''California'' ''CA'' 110 None,
      exampleRpp ''01000'' ''Alabama'' ''AL'' 95 None,
      exampleRpp ''36000'' ''New York'' ''NY'' 100 None]"
  by (simp add: completeRecords_def parseBEAResponse_def exampleItems_def parseItem_def
      mapHas_def mapSetNew_def mapModify_def newRpp_def applyLine_def parse_2022
      STATE_FIPS_TO_CODE_def exampleRpp_def)

lemma example_ranked:
  "rankByOverall [exampleRpp ''06000'' ''California'' ''CA'' 110 None,
      exampleRpp ''01000'' ''Alabama'' ''AL'' 95 None,
      exampleRpp ''36000'' ''New York'' ''NY'' 100 None] =
     [exampleRpp ''06000'' ''California'' ''CA'' 110 (Some 1),
      exampleRpp ''36000'' ''New York'' ''NY'' 100 (Some 2),
      exampleRpp ''01000'' ''Alabama'' ''AL'' 95 (Some 3)]"
  by (simp add: rankByOverall_def assignRanks_def sortByCmp_def compareOverall_def
      exampleRpp_def enumerate_eq_zip upt_rec)

text \<open>
  Claim C4 at a batch with \<open>overall\<close> values 110, 95, 100: the ranks are 1, 3, 2
  respectively.
\<close>

theorem rpp_batch_ranked_witness:
  "getRPPAllStates_fetchFn (\<lambda>q. HttpOk (Some exampleItems)) 2022 [] =
     (Inr (Some [exampleRpp ''06000'' ''California'' ''CA'' 110 (Some 1),
                 exampleRpp ''36000'' ''New York'' ''NY'' 100 (Some 2),
                 exampleRpp ''01000'' ''Alabama'' ''AL'' 95 (Some 3)]),
      [\<lparr>TableName = ''SARPP'', GeoFipsParam = ''STATE'', YearParam = ''2022''\<rparr>])"
proof -
  let ?q = "\<lparr>TableName = ''SARPP'', GeoFipsParam = ''STATE'', YearParam = showNat 2022\<rparr>"
  have which: "(getRPPAllStates_fetchFn, ?q) = (getRPPAllStates_fetchFn,
          \<lparr>TableName = ''SARPP'', GeoFipsParam = ''STATE'', YearParam = showNat 2022\<rparr>)
       \<or> (getRPPAllStates_fetchFn, ?q) = (getRPPAllMetros_fetchFn,
          \<lparr>TableName = ''MARPP'', GeoFipsParam = ''MSA'', YearParam = showNat 2022\<rparr>)"
    by simp
  have reply: "(\<lambda>q. HttpOk (Some exampleItems)) ?q = HttpOk (Some exampleItems)" by simp
  have "getRPPAllStates_fetchFn (\<lambda>q. HttpOk (Some exampleItems)) 2022 [] =
     (Inr (Some (rankByOverall (completeRecords
         (parseBEAResponse (Some exampleItems) (showNat 2022))))), [] @ [?q])"
    using rpp_batch_ranked[OF which reply refl refl, of "[]"] by (rule conjunct1)
  then show ?thesis
    by (simp only: showNat_2022 example_batch example_ranked append_Nil)
qed

lemma foldl_parseItem_other_year:
  "\<forall>item \<in> set items. TimePeriod item \<noteq> y \<Longrightarrow> foldl (parseItem y) m items = m"
  by (induction items arbitrary: m) (simp_all add: parseItem_def)

lemma parseBEAResponse_no_rows:
  assumes "case response of None \<Rightarrow> True
           | Some items \<Rightarrow> \<forall>item \<in> set items. TimePeriod item \<noteq> y"
  shows "rankByOverall (completeRecords (parseBEAResponse response y)) = []"
proof -
  have "parseBEAResponse response y = []"
    using assms
    by (cases response) (simp_all add: parseBEAResponse_def foldl_parseItem_other_year)
  then show ?thesis
    by (simp add: completeRecords_def rankByOverall_def assignRanks_def sortByCmp_def)
qed

lemma getRPPAllStates_fetchFn_sent:
  "snd (getRPPAllStates_fetchFn upstream y sent) =
     sent @ [\<lparr>TableName = ''SARPP'', GeoFipsParam = ''STATE'', YearParam = showNat y\<rparr>]"
  by (simp add: getRPPAllStates_fetchFn_def Let_def split: httpOutcome.splits)

lemma getRPPAllMetros_fetchFn_sent:
  "snd (getRPPAllMetros_fetchFn upstream y sent) =
     sent @ [\<lparr>TableName = ''MARPP'', GeoFipsParam = ''MSA'', YearParam = showNat y\<rparr>]"
  by (simp add: getRPPAllMetros_fetchFn_def Let_def split: httpOutcome.splits)

lemma withCache_world:
  "snd (snd (withCache dflt rd wr key config fetchFn db world)) = world
   \<or> snd (snd (withCache dflt rd wr key config fetchFn db world)) = snd (fetchFn world)"
  by (auto simp: withCache_def split: option.splits prod.splits sum.splits)

lemma getRPPAllStates_sent:
  "snd (snd (getRPPAllStates env requested db sent)) = sent
   \<or> snd (snd (getRPPAllStates env requested db sent)) =
        sent @ [\<lparr>TableName = ''SARPP'', GeoFipsParam = ''STATE'',
                  YearParam = showNat (dataYearOf (bea_currentYear env) requested)\<rparr>]"
proof (cases "keyConfigured (BEA_API_KEY env)")
  case False
  then show ?thesis by (simp add: getRPPAllStates_def Let_def)
next
  case True
  show ?thesis
    using True
      withCache_world[of "bea_defaultTtl env" "bea_readEnv env" "bea_writeEnv env"
        "generateCacheKey (apiSourceText BEA) ''rpp-states''
           (yearParams (dataYearOf (bea_currentYear env) requested))"
        "\<lparr>source = BEA, ttlSeconds = Some (86400 * 30)\<rparr>"
        "getRPPAllStates_fetchFn (bea_upstream env) (dataYearOf (bea_currentYear env) requested)"
        db sent]
    by (simp add: getRPPAllStates_def Let_def getRPPAllStates_fetchFn_sent)
qed

lemma getRPPAllMetros_sent:
  "snd (snd (getRPPAllMetros env requested db sent)) = sent
   \<or> snd (snd (getRPPAllMetros env requested db sent)) =
        sent @ [\<lparr>TableName = ''MARPP'', GeoFipsParam = ''MSA'',
                  YearParam = showNat (dataYearOf (bea_currentYear env) requested)\<rparr>]"
proof (cases "keyConfigured (BEA_API_KEY env)")
  case False
  then show ?thesis by (simp add: getRPPAllMetros_def Let_def)
next
  case True
  show ?thesis
    using True
      withCache_world[of "bea_defaultTtl env" "bea_readEnv env" "bea_writeEnv env"
        "generateCacheKey (apiSourceText BEA) ''rpp-metros''
           (yearParams (dataYearOf (bea_currentYear env) requested))"
        "\<lparr>source = BEA, ttlSeconds = Some (86400 * 30)\<rparr>"
        "getRPPAllMetros_fetchFn (bea_upstream env) (dataYearOf (bea_currentYear env) requested)"
        db sent]
    by (simp add: getRPPAllMetros_def Let_def getRPPAllMetros_fetchFn_sent)
qed

lemma getRPPAllStates_miss:
  assumes "keyConfigured (BEA_API_KEY env)"
    and "getCachedData_api (bea_readEnv env) db BEA
           (generateCacheKey (apiSourceText BEA) ''rpp-states''
              (yearParams (dataYearOf (bea_currentYear env) requested))) = None"
  shows "getRPPAllStates env requested db sent =
     (case getRPPAllStates_fetchFn (bea_upstream env)
             (dataYearOf (bea_currentYear env) requested) sent of
        (Inl e, sent') \<Rightarrow> (Inl e, db, sent')
      | (Inr d, sent') \<Rightarrow>
          (Inr \<lparr>resultData = d, cached = False, cacheAge = None\<rparr>,
           setCachedData_api (bea_defaultTtl env) (bea_writeEnv env) db
             (generateCacheKey (apiSourceText BEA) ''rpp-states''
                (yearParams (dataYearOf (bea_currentYear env) requested))) d
             \<lparr>source = BEA, ttlSeconds = Some (86400 * 30)\<rparr>, sent'))"
  using assms by (simp add: getRPPAllStates_def Let_def withCache_def split: prod.splits sum.splits)

lemma getRPPAllMetros_miss:
  assumes "keyConfigured (BEA_API_KEY env)"
    and "getCachedData_api (bea_readEnv env) db BEA
           (generateCacheKey (apiSourceText BEA) ''rpp-metros''
              (yearParams (dataYearOf (bea_currentYear env) requested))) = None"
  shows "getRPPAllMetros env requested db sent =
     (case getRPPAllMetros_fetchFn (bea_upstream env)
             (dataYearOf (bea_currentYear env) requested) sent of
        (Inl e, sent') \<Rightarrow> (Inl e, db, sent')
      | (Inr d, sent') \<Rightarrow>
          (Inr \<lparr>resultData = d, cached = False, cacheAge = None\<rparr>,
           setCachedData_api (bea_defaultTtl env) (bea_writeEnv env) db
             (generateCacheKey (apiSourceText BEA) ''rpp-metros''
                (yearParams (dataYearOf (bea_currentYear env) requested))) d
             \<lparr>source = BEA, ttlSeconds = Some (86400 * 30)\<rparr>, sent'))"
  using assms by (simp add: getRPPAllMetros_def Let_def withCache_def split: prod.splits sum.splits)

lemma snd_snd_case_sum:
  "snd (snd (case p of (Inl e, w) \<Rightarrow> (f e, d, w) | (Inr r, w) \<Rightarrow> (g r, h r, w))) = snd p"
  by (cases p; cases "fst p") auto

text \<open>
  Claim C5 (as amended).  With the API key configured and \<open>y\<close> the requested year (the
  latest year when none is requested), for \<open>getRPPAllStates\<close> and for \<open>getRPPAllMetros\<close>
  alike: on a cache miss exactly one query is sent, the one for \<open>y\<close>, whatever the upstream
  answers; and when the answer has no rows for \<open>y\<close> the fetch does not fail: it returns the
  empty list, not cached, and writes the empty list to the cache.  Whatever the surroundings,
  each of the two sends either nothing or that one query: none for a prior year.
\<close>

theorem rpp_fetch_no_prior_year:
  assumes key: "keyConfigured (BEA_API_KEY env)"
    and y: "y = dataYearOf (bea_currentYear env) requested"
    and qs: "statesQuery = \<lparr>TableName = ''SARPP'', GeoFipsParam = ''STATE'', YearParam = showNat y\<rparr>"
    and qm: "metrosQuery = \<lparr>TableName = ''MARPP'', GeoFipsParam = ''MSA'', YearParam = showNat y\<rparr>"
    and ks: "statesKey = generateCacheKey (apiSourceText BEA) ''rpp-states'' (yearParams y)"
    and km: "metrosKey = generateCacheKey (apiSourceText BEA) ''rpp-metros'' (yearParams y)"
  shows "(getCachedData_api (bea_readEnv env) db BEA statesKey = None \<longrightarrow>
            snd (snd (getRPPAllStates env requested db sent)) = sent @ [statesQuery]
          \<and> (\<forall>response.
                bea_upstream env statesQuery = HttpOk response
              \<and> (case response of None \<Rightarrow> True
                   | Some items \<Rightarrow> \<forall>item \<in> set items. TimePeriod item \<noteq> showNat y)
              \<longrightarrow> getRPPAllStates env requested db sent =
                    (Inr \<lparr>resultData = Some [], cached = False, cacheAge = None\<rparr>,
                     setCachedData_api (bea_defaultTtl env) (bea_writeEnv env) db statesKey
                       (Some []) \<lparr>source = BEA, ttlSeconds = Some (86400 * 30)\<rparr>,
                     sent @ [statesQuery])))
     \<and> (getCachedData_api (bea_readEnv env) db BEA metrosKey = None \<longrightarrow>
            snd (snd (getRPPAllMetros env requested db sent)) = sent @ [metrosQuery]
          \<and> (\<forall>response.
                bea_upstream env metrosQuery = HttpOk response
              \<and> (case response of None \<Rightarrow> True
                   | Some items \<Rightarrow> \<forall>item \<in> set items. TimePeriod item \<noteq> showNat y)
              \<longrightarrow> getRPPAllMetros env requested db sent =
                    (Inr \<lparr>resultData = Some [], cached = False, cacheAge = None\<rparr>,
                     setCachedData_api (bea_defaultTtl env) (bea_writeEnv env) db metrosKey
                       (Some []) \<lparr>source = BEA, ttlSeconds = Some (86400 * 30)\<rparr>,
                     sent @ [metrosQuery])))
     \<and> (\<forall>env' requested' db' sent'.
           snd (snd (getRPPAllStates env' requested' db' sent')) = sent'
           \<or> snd (snd (getRPPAllStates env' requested' db' sent')) =
                sent' @ [\<lparr>TableName = ''SARPP'', GeoFipsParam = ''STATE'',
                    YearParam = showNat (dataYearOf (bea_currentYear env') requested')\<rparr>])
     \<and> (\<forall>env' requested' db' sent'.
           snd (snd (getRPPAllMetros env' requested' db' sent')) = sent'
           \<or> snd (snd (getRPPAllMetros env' requested' db' sent')) =
                sent' @ [\<lparr>TableName = ''MARPP'', GeoFipsParam = ''MSA'',
                    YearParam = showNat (dataYearOf (bea_currentYear env') requested')\<rparr>])"
proof (intro conjI impI allI)
  assume miss: "getCachedData_api (bea_readEnv env) db BEA statesKey = None"
  have run: "getRPPAllStates env requested db sent =
     (case getRPPAllStates_fetchFn (bea_upstream env) y sent of
        (Inl e, sent') \<Rightarrow> (Inl e, db, sent')
      | (Inr d, sent') \<Rightarrow>
          (Inr \<lparr>resultData = d, cached = False, cacheAge = None\<rparr>,
           setCachedData_api (bea_defaultTtl env) (bea_writeEnv env) db statesKey d
             \<lparr>source = BEA, ttlSeconds = Some (86400 * 30)\<rparr>, sent'))"
    using getRPPAllStates_miss[of env db requested sent] key miss unfolding ks y by simp
  show "snd (snd (getRPPAllStates env requested db sent)) = sent @ [statesQuery]"
    unfolding run snd_snd_case_sum qs by (rule getRPPAllStates_fetchFn_sent)
  fix response
  assume a: "bea_upstream env statesQuery = HttpOk response
              \<and> (case response of None \<Rightarrow> True
                   | Some items \<Rightarrow> \<forall>item \<in> set items. TimePeriod item \<noteq> showNat y)"
  have fetched: "getRPPAllStates_fetchFn (bea_upstream env) y sent =
      (Inr (Some []), sent @ [statesQuery])"
    using getRPPAllStates_fetchFn_ok[where upstream = "bea_upstream env" and dataYear = y
        and response = response and sent = sent] a
      parseBEAResponse_no_rows[where response = response and y = "showNat y"]
    unfolding qs by simp
  show "getRPPAllStates env requested db sent =
          (Inr \<lparr>resultData = Some [], cached = False, cacheAge = None\<rparr>,
           setCachedData_api (bea_defaultTtl env) (bea_writeEnv env) db statesKey
             (Some []) \<lparr>source = BEA, ttlSeconds = Some (86400 * 30)\<rparr>,
           sent @ [statesQuery])"
    unfolding run fetched by simp
next
  assume miss: "getCachedData_api (bea_readEnv env) db BEA metrosKey = None"
  have run: "getRPPAllMetros env requested db sent =
     (case getRPPAllMetros_fetchFn (bea_upstream env) y sent of
        (Inl e, sent') \<Rightarrow> (Inl e, db, sent')
      | (Inr d, sent') \<Rightarrow>
          (Inr \<lparr>resultData = d, cached = False, cacheAge = None\<rparr>,
           setCachedData_api (bea_defaultTtl env) (bea_writeEnv env) db metrosKey d
             \<lparr>source = BEA, ttlSeconds = Some (86400 * 30)\<rparr>, sent'))"
    using getRPPAllMetros_miss[of env db requested sent] key miss unfolding km y by simp
  show "snd (snd (getRPPAllMetros env requested db sent)) = sent @ [metrosQuery]"
    unfolding run snd_snd_case_sum qm by (rule getRPPAllMetros_fetchFn_sent)
  fix response
  assume a: "bea_upstream env metrosQuery = HttpOk response
              \<and> (case response of None \<Rightarrow> True
                   | Some items \<Rightarrow> \<forall>item \<in> set items. TimePeriod item \<noteq> showNat y)"
  have fetched: "getRPPAllMetros_fetchFn (bea_upstream env) y sent =
      (Inr (Some []), sent @ [metrosQuery])"
    using getRPPAllMetros_fetchFn_ok[where upstream = "bea_upstream env" and dataYear = y
        and response = response and sent = sent] a
      parseBEAResponse_no_rows[where response = response and y = "showNat y"]
    unfolding qm by simp
  show "getRPPAllMetros env requested db sent =
          (Inr \<lparr>resultData = Some [], cached = False, cacheAge = None\<rparr>,
           setCachedData_api (bea_defaultTtl env) (bea_writeEnv env) db metrosKey
             (Some []) \<lparr>source = BEA, ttlSeconds = Some (86400 * 30)\<rparr>,
           sent @ [metrosQuery])"
    unfolding run fetched by simp
next
  fix env' requested' db' sent'
  show "snd (snd (getRPPAllStates env' requested' db' sent')) = sent'
           \<or> snd (snd (getRPPAllStates env' requested' db' sent')) =
                sent' @ [\<lparr>TableName = ''SARPP'', GeoFipsParam = ''STATE'',
                    YearParam = showNat (dataYearOf (bea_currentYear env') requested')\<rparr>]"
    by (rule getRPPAllStates_sent)
next
  fix env' requested' db' sent'
  show "snd (snd (getRPPAllMetros env' requested' db' sent')) = sent'
           \<or> snd (snd (getRPPAllMetros env' requested' db' sent')) =
                sent' @ [\<lparr>TableName = ''MARPP'', GeoFipsParam = ''MSA'',
                    YearParam = showNat (dataYearOf (bea_currentYear env') requested')\<rparr>]"
    by (rule getRPPAllMetros_sent)
qed

text \<open>
  Claim C5 as stated fails: the upstream has rows for 2021 and none for 2022; the fetch for
  2022 returns the empty list, and the only query sent is the one for 2022.
\<close>

theorem rpp_fetch_no_prior_year_counterexample:
  "fst (getRPPAllStates (exampleEnv upstream2021) (Some 2022) Map.empty []) =
     Inr \<lparr>resultData = Some [], cached = False, cacheAge = None\<rparr>
   \<and> snd (snd (getRPPAllStates (exampleEnv upstream2021) (Some 2022) Map.empty [])) =
     [\<lparr>TableName = ''SARPP'', GeoFipsParam = ''STATE'', YearParam = ''2022''\<rparr>]"
  by (simp add: getRPPAllStates_def exampleEnv_def keyConfigured_def dataYearOf_def Let_def
      withCache_def getCachedData_api_def getCachedData_api_try_def selectSingle_def healthyAt_def
      getRPPAllStates_fetchFn_def upstream2021_def showNat_2022 parseBEAResponse_def
      completeRecords_def rankByOverall_def assignRanks_def sortByCmp_def)

text \<open>
  The amended claim C5 for the default year (2022 in 2024), an empty cache and a response
  that has no data array, for both fetchers.
\<close>

theorem rpp_fetch_no_prior_year_witness:
  "getRPPAllStates (exampleEnv (\<lambda>q. HttpOk None)) None Map.empty [] =
     (Inr \<lparr>resultData = Some [], cached = False, cacheAge = None\<rparr>,
      [(BEA, (generateCacheKey (apiSourceText BEA) ''rpp-states'' (yearParams 2022))) \<mapsto>
         \<lparr>data = Some [], created_at = Time 2000, expires_at = Time 2592002000\<rparr>],
      [\<lparr>TableName = ''SARPP'', GeoFipsParam = ''STATE'', YearParam = ''2022''\<rparr>])
   \<and> getRPPAllMetros (exampleEnv (\<lambda>q. HttpOk None)) None Map.empty [] =
     (Inr \<lparr>resultData = Some [], cached = False, cacheAge = None\<rparr>,
      [(BEA, (generateCacheKey (apiSourceText BEA) ''rpp-metros'' (yearParams 2022))) \<mapsto>
         \<lparr>data = Some [], created_at = Time 2000, expires_at = Time 2592002000\<rparr>],
      [\<lparr>TableName = ''MARPP'', GeoFipsParam = ''MSA'', YearParam = ''2022''\<rparr>])"
proof -
  let ?env = "exampleEnv (\<lambda>q. HttpOk None)"
  let ?qs = "\<lparr>TableName = ''SARPP'', GeoFipsParam = ''STATE'', YearParam = showNat 2022\<rparr>"
  let ?qm = "\<lparr>TableName = ''MARPP'', GeoFipsParam = ''MSA'', YearParam = showNat 2022\<rparr>"
  let ?ks = "generateCacheKey (apiSourceText BEA) ''rpp-states'' (yearParams 2022)"
  let ?km = "generateCacheKey (apiSourceText BEA) ''rpp-metros'' (yearParams 2022)"
  have y: "(2022::nat) = dataYearOf (bea_currentYear ?env) None"
    by (simp add: dataYearOf_def getLatestRPPYear_def exampleEnv_def)
  have key: "keyConfigured (BEA_API_KEY ?env)"
    by (simp add: keyConfigured_def exampleEnv_def)
  have miss: "getCachedData_api (bea_readEnv ?env) Map.empty BEA k = None" for k
    by (simp add: getCachedData_api_def getCachedData_api_try_def selectSingle_def
        exampleEnv_def healthyAt_def)
  have reply: "bea_upstream ?env q = HttpOk None
      \<and> (case None :: BEADataItem list option of None \<Rightarrow> True
          | Some items \<Rightarrow> \<forall>item \<in> set items. TimePeriod item \<noteq> showNat 2022)" for q
    by (simp add: exampleEnv_def)
  have stored: "setCachedData_api (bea_defaultTtl ?env) (bea_writeEnv ?env) Map.empty
              k (Some ([] :: RegionalPriceParity list))
              \<lparr>source = BEA, ttlSeconds = Some (86400 * 30)\<rparr>
        = [(BEA, k) \<mapsto>
         \<lparr>data = Some [], created_at = Time 2000, expires_at = Time 2592002000\<rparr>]" for k
    by (simp add: setCachedData_api_def exampleEnv_def healthyAt_def ttlOf_def validDate_def)
  note inst = rpp_fetch_no_prior_year[OF key y refl refl refl refl, of Map.empty "[]"]
  have states: "getRPPAllStates ?env None Map.empty [] =
           (Inr \<lparr>resultData = Some [], cached = False, cacheAge = None\<rparr>,
            setCachedData_api (bea_defaultTtl ?env) (bea_writeEnv ?env) Map.empty ?ks (Some [])
              \<lparr>source = BEA, ttlSeconds = Some (86400 * 30)\<rparr>,
            [] @ [?qs])"
    using inst miss[of ?ks] reply[of ?qs] by blast
  have metros: "getRPPAllMetros ?env None Map.empty [] =
           (Inr \<lparr>resultData = Some [], cached = False, cacheAge = None\<rparr>,
            setCachedData_api (bea_defaultTtl ?env) (bea_writeEnv ?env) Map.empty ?km (Some [])
              \<lparr>source = BEA, ttlSeconds = Some (86400 * 30)\<rparr>,
            [] @ [?qm])"
    using inst miss[of ?km] reply[of ?qm] by blast
  show ?thesis
    using states metros by (simp only: stored showNat_2022 append_Nil simp_thms)
qed

lemma str_eq_iff [simp]: "str a = str b \<longleftrightarrow> a = b"
  by (simp add: str_def inj_map_eq_map inj_on_def)

lemma str_Nil [simp]: "str [] = []"
  by (simp add: str_def)

lemma str_eq_Nil [simp]: "str a = [] \<longleftrightarrow> a = []"
  by (simp add: str_def)

lemma str_append [simp]: "str a @ str b = str (a @ b)"
  by (simp add: str_def)

lemma orderByRatioDesc_set: "set (orderByRatioDesc rows) = set rows"
  by (simp add: orderByRatioDesc_def)

lemma orderByRatioDesc_length: "length (orderByRatioDesc rows) = length rows"
  by (simp add: orderByRatioDesc_def)

lemma orderByRatioDesc_sorted:
  "sorted_wrt (\<ge>) (map residential_ratio (orderByRatioDesc rows))"
proof -
  have "sorted (map (\<lambda>row. - residential_ratio row) (orderByRatioDesc rows))"
    unfolding orderByRatioDesc_def by (rule sorted_sort_key)
  then show ?thesis by (simp add: sorted_map sorted_wrt_map)
qed

lemma orderByRatioDesc_head:
  assumes "orderByRatioDesc rows = primary # others"
  shows "primary \<in> set rows"
    and "\<forall>row \<in> set rows. residential_ratio row \<le> residential_ratio primary"
    and "length (primary # others) = length rows"
proof -
  have s: "set rows = set (primary # others)"
    using orderByRatioDesc_set[of rows] assms by simp
  show "primary \<in> set rows" using s by simp
  have "sorted_wrt (\<ge>) (map residential_ratio (primary # others))"
    using orderByRatioDesc_sorted[of rows] assms by simp
  then have "\<forall>row \<in> set others. residential_ratio row \<le> residential_ratio primary"
    by simp
  then show "\<forall>row \<in> set rows. residential_ratio row \<le> residential_ratio primary"
    using s by auto
  show "length (primary # others) = length rows"
    using orderByRatioDesc_length[of rows] assms by simp
qed

text \<open>
  Claim C6.  With the crosswalk table answering: for a ZIP with at least one row,
  \<open>getMetroCodeForZip\<close> returns the metro of a row whose \<open>residential_ratio\<close> is the largest
  among the rows of that ZIP, with \<open>isSplitZip\<close> true exactly when the ZIP has more than one
  row; for a ZIP without rows it returns \<open>null\<close>.
\<close>

theorem metro_resolver_primary:
  assumes "rows = filter (\<lambda>row. zip_code row = zipcode) table"
  shows "(rows = [] \<longrightarrow> getMetroCodeForZip Healthy table zipcode = None)
       \<and> (rows \<noteq> [] \<longrightarrow>
            (\<exists>primary \<in> set rows.
               (\<forall>row \<in> set rows. residential_ratio row \<le> residential_ratio primary)
             \<and> getMetroCodeForZip Healthy table zipcode =
                 Some (toCrosswalkResult primary (length rows > 1))
             \<and> cbsaCode (toCrosswalkResult primary (length rows > 1)) = cbsa_code primary
             \<and> residentialRatio (toCrosswalkResult primary (length rows > 1))
                 = residential_ratio primary
             \<and> isSplitZip (toCrosswalkResult primary (length rows > 1)) = (length rows > 1)))"
proof (intro conjI impI)
  assume "rows = []"
  then have "orderByRatioDesc (filter (\<lambda>row. zip_code row = zipcode) table) = []"
    using assms by (simp add: orderByRatioDesc_def)
  then show "getMetroCodeForZip Healthy table zipcode = None"
    by (simp add: getMetroCodeForZip_def)
next
  assume ne: "rows \<noteq> []"
  then obtain primary others where ord: "orderByRatioDesc rows = primary # others"
    using orderByRatioDesc_length[of rows] by (cases "orderByRatioDesc rows") auto
  note h = orderByRatioDesc_head[OF ord]
  have "getMetroCodeForZip Healthy table zipcode =
          Some (toCrosswalkResult primary (length (primary # others) > 1))"
    using ord assms by (simp add: getMetroCodeForZip_def)
  moreover have "(length (primary # others) > 1) = (length rows > 1)"
    using h(3) by (simp only:)
  ultimately have res: "getMetroCodeForZip Healthy table zipcode =
          Some (toCrosswalkResult primary (length rows > 1))"
    by (simp only:)
  show "\<exists>primary \<in> set rows.
               (\<forall>row \<in> set rows. residential_ratio row \<le> residential_ratio primary)
             \<and> getMetroCodeForZip Healthy table zipcode =
                 Some (toCrosswalkResult primary (length rows > 1))
             \<and> cbsaCode (toCrosswalkResult primary (length rows > 1)) = cbsa_code primary
             \<and> residentialRatio (toCrosswalkResult primary (length rows > 1))
                 = residential_ratio primary
             \<and> isSplitZip (toCrosswalkResult primary (length rows > 1)) = (length rows > 1)"
    using h(1) h(2) res by (intro bexI[of _ primary]) (simp_all add: toCrosswalkResult_def Let_def)
qed

lemma split_boston: "splitComma (str ''Boston-Cambridge, MA-NH'') = [str ''Boston-Cambridge'', str '' MA-NH'']"
  by code_simp

lemma trim_boston: "trim (str ''Boston-Cambridge'') = str ''Boston-Cambridge'' \<and> trim (str '' MA-NH'') = str ''MA-NH''"
  by code_simp

lemma example_resolve:
  "getMetroCodeForZip Healthy exampleTable (str ''03049'') =
     Some \<lparr>cbsaCode = str ''14460'', cbsaName = str ''Boston-Cambridge, MA-NH'',
           cityName = str ''Boston-Cambridge'', stateCode = str ''MA-NH'',
           residentialRatio = 0.7, isSplitZip = True\<rparr>"
  by (simp add: getMetroCodeForZip_def exampleTable_def orderByRatioDesc_def
      toCrosswalkResult_def split_boston trim_boston part_def orElse_def Let_def)

lemma toCrosswalkResult_fields [simp]:
  "cbsaCode (toCrosswalkResult row b) = cbsa_code row"
  "cbsaName (toCrosswalkResult row b) = cbsa_name row"
  "residentialRatio (toCrosswalkResult row b) = residential_ratio row"
  "isSplitZip (toCrosswalkResult row b) = b"
  by (simp_all add: toCrosswalkResult_def Let_def)

lemma nearbyStep_inv:
  assumes inv: "nearbyInv limit all pre (x # xs) (seen, unique)"
    and all: "all = pre @ (x # xs) @ post"
    and sorted: "sorted_wrt (\<ge>) (map residential_ratio all)"
  shows "nearbyInv limit all (pre @ [x]) xs (nearbyStep limit (seen, unique) x)"
proof -
  have i1: "seen = map cbsaCode unique" and i2: "distinct seen" and i3: "length unique \<le> limit"
    and i4: "length unique < limit \<Longrightarrow> \<forall>row \<in> set pre. cbsa_code row \<in> set seen"
    and i5: "\<forall>c \<in> set unique. \<exists>row \<in> set pre. c = toCrosswalkResult row False
             \<and> (\<forall>row' \<in> set all. cbsa_code row' = cbsa_code row
                    \<longrightarrow> residential_ratio row' \<le> residential_ratio row)"
    and i6: "sorted_wrt (\<ge>) (map residentialRatio unique)"
    and i7: "\<forall>c \<in> set unique. \<forall>row \<in> set (x # xs). residential_ratio row \<le> residentialRatio c"
    using inv unfolding nearbyInv_def prod.case by blast+
  have later: "\<forall>row \<in> set (xs @ post). residential_ratio row \<le> residential_ratio x"
    using sorted unfolding all by (auto simp: sorted_wrt_append)
  show ?thesis
  proof (cases "cbsa_code x \<notin> set seen \<and> length unique < limit")
    case True
    then have fresh: "cbsa_code x \<notin> set seen" and room: "length unique < limit" by simp_all
    have step: "nearbyStep limit (seen, unique) x =
        (seen @ [cbsa_code x], unique @ [toCrosswalkResult x False])"
      using True by (simp add: nearbyStep_def)
    have best: "\<forall>row' \<in> set all. cbsa_code row' = cbsa_code x
                    \<longrightarrow> residential_ratio row' \<le> residential_ratio x"
    proof (intro ballI impI)
      fix row' assume mem: "row' \<in> set all" and same: "cbsa_code row' = cbsa_code x"
      have "row' \<notin> set pre" using i4[OF room] fresh same by auto
      then have "row' = x \<or> row' \<in> set (xs @ post)" using mem unfolding all by auto
      then show "residential_ratio row' \<le> residential_ratio x" using later by auto
    qed
    have n5: "\<forall>c \<in> set (unique @ [toCrosswalkResult x False]).
           \<exists>row \<in> set (pre @ [x]). c = toCrosswalkResult row False
             \<and> (\<forall>row' \<in> set all. cbsa_code row' = cbsa_code row
                    \<longrightarrow> residential_ratio row' \<le> residential_ratio row)"
    proof
      fix c assume "c \<in> set (unique @ [toCrosswalkResult x False])"
      then consider "c \<in> set unique" | "c = toCrosswalkResult x False" by auto
      then show "\<exists>row \<in> set (pre @ [x]). c = toCrosswalkResult row False
             \<and> (\<forall>row' \<in> set all. cbsa_code row' = cbsa_code row
                    \<longrightarrow> residential_ratio row' \<le> residential_ratio row)"
      proof cases
        case 1
        then obtain row where "row \<in> set pre" "c = toCrosswalkResult row False"
          "\<forall>row' \<in> set all. cbsa_code row' = cbsa_code row
                    \<longrightarrow> residential_ratio row' \<le> residential_ratio row"
          using i5 by blast
        then show ?thesis by (intro bexI[of _ row]) simp_all
      next
        case 2
        then show ?thesis using best by (intro bexI[of _ x]) simp_all
      qed
    qed
    have n6: "sorted_wrt (\<ge>) (map residentialRatio (unique @ [toCrosswalkResult x False]))"
      using i6 i7 by (simp add: sorted_wrt_append)
    have n7: "\<forall>c \<in> set (unique @ [toCrosswalkResult x False]).
                \<forall>row \<in> set xs. residential_ratio row \<le> residentialRatio c"
      using i7 later by auto
    have n4: "\<forall>row \<in> set (pre @ [x]). cbsa_code row \<in> set (seen @ [cbsa_code x])"
      using i4[OF room] by auto
    have n1: "seen @ [cbsa_code x] = map cbsaCode (unique @ [toCrosswalkResult x False])"
      using i1 by simp
    have n2: "distinct (seen @ [cbsa_code x])" using i2 fresh by simp
    have n3: "length (unique @ [toCrosswalkResult x False]) \<le> limit" using room by simp
    show ?thesis
      unfolding step nearbyInv_def prod.case
      using n1 n2 n3 n4 n5 n6 n7 by blast
  next
    case False
    have step: "nearbyStep limit (seen, unique) x = (seen, unique)"
      using False by (simp add: nearbyStep_def)
    have n4: "length unique < limit \<longrightarrow> (\<forall>row \<in> set (pre @ [x]). cbsa_code row \<in> set seen)"
      using i4 False by auto
    have n5: "\<forall>c \<in> set unique.
           \<exists>row \<in> set (pre @ [x]). c = toCrosswalkResult row False
             \<and> (\<forall>row' \<in> set all. cbsa_code row' = cbsa_code row
                    \<longrightarrow> residential_ratio row' \<le> residential_ratio row)"
    proof
      fix c assume "c \<in> set unique"
      then obtain row where "row \<in> set pre" "c = toCrosswalkResult row False"
          "\<forall>row' \<in> set all. cbsa_code row' = cbsa_code row
                    \<longrightarrow> residential_ratio row' \<le> residential_ratio row"
        using i5 by blast
      then show "\<exists>row \<in> set (pre @ [x]). c = toCrosswalkResult row False
             \<and> (\<forall>row' \<in> set all. cbsa_code row' = cbsa_code row
                    \<longrightarrow> residential_ratio row' \<le> residential_ratio row)"
        by (intro bexI[of _ row]) simp_all
    qed
    have n7: "\<forall>c \<in> set unique. \<forall>row \<in> set xs. residential_ratio row \<le> residentialRatio c"
      using i7 by simp
    show ?thesis
      unfolding step nearbyInv_def prod.case
      using i1 i2 i3 n4 n5 i6 n7 by blast
  qed
qed

lemma nearbyFold_inv:
  assumes "nearbyInv limit all pre xs acc"
    and "all = pre @ xs @ post"
    and "sorted_wrt (\<ge>) (map residential_ratio all)"
  shows "nearbyInv limit all (pre @ xs) [] (foldl (nearbyStep limit) acc xs)"
  using assms
proof (induction xs arbitrary: pre acc)
  case Nil
  then show ?case by simp
next
  case (Cons x xs)
  obtain seen unique where acc: "acc = (seen, unique)" by (cases acc)
  have "nearbyInv limit all (pre @ [x]) xs (nearbyStep limit (seen, unique) x)"
    using Cons.prems unfolding acc by (rule nearbyStep_inv)
  moreover have "all = (pre @ [x]) @ xs @ post" using Cons.prems(2) by simp
  ultimately have "nearbyInv limit all ((pre @ [x]) @ xs) []
      (foldl (nearbyStep limit) (nearbyStep limit (seen, unique) x) xs)"
    using Cons.prems(3) by (rule Cons.IH)
  then show ?case by (simp add: acc)
qed

lemma nearbyInv_init: "nearbyInv limit all [] xs ([], [])"
  by (simp add: nearbyInv_def)

lemma getNearbyMetros_unresolved:
  "getMetroCodeForZip st1 table zipcode = None \<Longrightarrow>
   getNearbyMetros st1 st2 table zipcode limit = []"
  by (simp add: getNearbyMetros_def)

text \<open>
  What \<open>getNearbyMetros\<close> guarantees for a resolved ZIP: every metro returned comes from a row
  whose name matches \<open>%stateCode%\<close> and whose code is not the primary metro's; that row has the
  largest ratio among the matching rows of its code; the codes returned are distinct, the
  ratios descend, and at most \<open>limit\<close> metros are returned.  An unresolved ZIP gives the empty
  list.
\<close>

lemma getNearbyMetros_guarantees:
  assumes resolved: "getMetroCodeForZip Healthy table zipcode = Some crosswalk"
    and out: "out = getNearbyMetros Healthy Healthy table zipcode limit"
    and pattern: "pattern = str ''%'' @ stateCode crosswalk @ str ''%''"
  shows "(\<forall>c \<in> set out. \<exists>row \<in> set table. c = toCrosswalkResult row False
              \<and> likeMatch pattern (cbsa_name row)
              \<and> cbsa_code row \<noteq> cbsaCode crosswalk
              \<and> (\<forall>row' \<in> set table.
                    likeMatch pattern (cbsa_name row') \<and> cbsa_code row' = cbsa_code row
                    \<longrightarrow> residential_ratio row' \<le> residential_ratio row))
       \<and> distinct (map cbsaCode out)
       \<and> sorted_wrt (\<ge>) (map residentialRatio out)
       \<and> length out \<le> limit
       \<and> (\<forall>st1 st2 table' zipcode' limit'.
             getMetroCodeForZip st1 table' zipcode' = None
             \<longrightarrow> getNearbyMetros st1 st2 table' zipcode' limit' = [])"
proof -
  let ?cands = "nearbyCandidates table crosswalk"
  let ?xs = "take (limit * 3) ?cands"
  let ?post = "drop (limit * 3) ?cands"
  let ?acc = "foldl (nearbyStep limit) ([], []) ?xs"
  have out_eq: "out = snd ?acc"
    using resolved out by (simp add: getNearbyMetros_def)
  have split: "?cands = [] @ ?xs @ ?post" by simp
  have sorted: "sorted_wrt (\<ge>) (map residential_ratio ?cands)"
    unfolding nearbyCandidates_def by (rule orderByRatioDesc_sorted)
  have "nearbyInv limit ?cands ([] @ ?xs) [] ?acc"
    using nearbyInv_init split sorted by (rule nearbyFold_inv)
  then have inv: "nearbyInv limit ?cands ?xs [] (fst ?acc, out)"
    by (simp add: out_eq)
  have i1: "fst ?acc = map cbsaCode out" and i2: "distinct (fst ?acc)"
    and i3: "length out \<le> limit"
    and i5: "\<forall>c \<in> set out. \<exists>row \<in> set ?xs. c = toCrosswalkResult row False
             \<and> (\<forall>row' \<in> set ?cands. cbsa_code row' = cbsa_code row
                    \<longrightarrow> residential_ratio row' \<le> residential_ratio row)"
    and i6: "sorted_wrt (\<ge>) (map residentialRatio out)"
    using inv unfolding nearbyInv_def prod.case by blast+
  have cands_set: "set ?cands = {row \<in> set table. likeMatch pattern (cbsa_name row)
                      \<and> cbsa_code row \<noteq> cbsaCode crosswalk}"
    by (simp add: nearbyCandidates_def orderByRatioDesc_set pattern)
  have p1: "\<forall>c \<in> set out. \<exists>row \<in> set table. c = toCrosswalkResult row False
              \<and> likeMatch pattern (cbsa_name row)
              \<and> cbsa_code row \<noteq> cbsaCode crosswalk
              \<and> (\<forall>row' \<in> set table.
                    likeMatch pattern (cbsa_name row') \<and> cbsa_code row' = cbsa_code row
                    \<longrightarrow> residential_ratio row' \<le> residential_ratio row)"
  proof
    fix c assume "c \<in> set out"
    then obtain row where row: "row \<in> set ?xs" and c: "c = toCrosswalkResult row False"
      and best: "\<forall>row' \<in> set ?cands. cbsa_code row' = cbsa_code row
                    \<longrightarrow> residential_ratio row' \<le> residential_ratio row"
      using i5 by blast
    have mem: "row \<in> set ?cands" using row by (rule in_set_takeD)
    then have r1: "row \<in> set table" and r2: "likeMatch pattern (cbsa_name row)"
      and r3: "cbsa_code row \<noteq> cbsaCode crosswalk"
      unfolding cands_set by simp_all
    have r4: "\<forall>row' \<in> set table.
                    likeMatch pattern (cbsa_name row') \<and> cbsa_code row' = cbsa_code row
                    \<longrightarrow> residential_ratio row' \<le> residential_ratio row"
    proof (intro ballI impI)
      fix row' assume "row' \<in> set table"
        and "likeMatch pattern (cbsa_name row') \<and> cbsa_code row' = cbsa_code row"
      then have "row' \<in> set ?cands" and "cbsa_code row' = cbsa_code row"
        unfolding cands_set using r3 by simp_all
      then show "residential_ratio row' \<le> residential_ratio row" using best by blast
    qed
    show "\<exists>row \<in> set table. c = toCrosswalkResult row False
              \<and> likeMatch pattern (cbsa_name row)
              \<and> cbsa_code row \<noteq> cbsaCode crosswalk
              \<and> (\<forall>row' \<in> set table.
                    likeMatch pattern (cbsa_name row') \<and> cbsa_code row' = cbsa_code row
                    \<longrightarrow> residential_ratio row' \<le> residential_ratio row)"
      using r1 c r2 r3 r4 by (intro bexI[of _ row] conjI)
  qed
  have p2: "distinct (map cbsaCode out)" using i1 i2 by simp
  have p5: "\<forall>st1 st2 table' zipcode' limit'.
             getMetroCodeForZip st1 table' zipcode' = None
             \<longrightarrow> getNearbyMetros st1 st2 table' zipcode' limit' = []"
    using getNearbyMetros_unresolved by blast
  show ?thesis using p1 p2 i6 i3 p5 by (intro conjI)
qed

lemma split_mobile: "splitComma (str ''MOBILE, AL'') = [str ''MOBILE'', str '' AL'']"
  by code_simp

lemma split_albany: "splitComma (str ''ALBANY, GA'') = [str ''ALBANY'', str '' GA'']"
  by code_simp

lemma trims_upper:
  "trim (str ''MOBILE'') = str ''MOBILE''" "trim (str '' AL'') = str ''AL''"
  "trim (str ''ALBANY'') = str ''ALBANY''" "trim (str '' GA'') = str ''GA''"
  by code_simp+

lemma like_upper:
  "likeMatch (str ''%AL%'') (str ''MOBILE, AL'')" "likeMatch (str ''%AL%'') (str ''ALBANY, GA'')"
  by code_simp+

lemma upper_primary:
  "getMetroCodeForZip Healthy upperTable (str ''36602'') =
     Some \<lparr>cbsaCode = str ''33660'', cbsaName = str ''MOBILE, AL'', cityName = str ''MOBILE'',
           stateCode = str ''AL'', residentialRatio = 1, isSplitZip = False\<rparr>"
  by (simp add: getMetroCodeForZip_def upperTable_def orderByRatioDesc_def
      toCrosswalkResult_def split_mobile trims_upper part_def orElse_def Let_def)

lemma upper_candidates:
  "nearbyCandidates upperTable
     \<lparr>cbsaCode = str ''33660'', cbsaName = str ''MOBILE, AL'', cityName = str ''MOBILE'',
           stateCode = str ''AL'', residentialRatio = 1, isSplitZip = False\<rparr> =
     [\<lparr>zip_code = str ''31701'', cbsa_code = str ''10500'', cbsa_name = str ''ALBANY, GA'',
      residential_ratio = 1\<rparr>]"
  by (simp add: nearbyCandidates_def upperTable_def orderByRatioDesc_def like_upper)

lemma upper_nearby:
  "getNearbyMetros Healthy Healthy upperTable (str ''36602'') 5 =
     [\<lparr>cbsaCode = str ''10500'', cbsaName = str ''ALBANY, GA'', cityName = str ''ALBANY'',
       stateCode = str ''GA'', residentialRatio = 1, isSplitZip = False\<rparr>]"
proof -
  have "getNearbyMetros Healthy Healthy upperTable (str ''36602'') 5 =
      snd (foldl (nearbyStep 5) ([], [])
        (take (5 * 3) [\<lparr>zip_code = str ''31701'', cbsa_code = str ''10500'', cbsa_name = str ''ALBANY, GA'',
      residential_ratio = 1\<rparr>]))"
    by (simp only: getNearbyMetros_def upper_primary upper_candidates option.case
        storeStatus.case)
  then show ?thesis
    by (simp add: nearbyStep_def toCrosswalkResult_def split_albany trims_upper part_def
        orElse_def Let_def)
qed

text \<open>
  Claim C9 fails on the code.  The table holds ZIP 36602 in the metro \<open>MOBILE, AL\<close> and another
  ZIP in the metro \<open>ALBANY, GA\<close>.  The primary metro of 36602 has state code \<open>AL\<close>; the
  filter \<open>%AL%\<close> on the metro name lets \<open>ALBANY, GA\<close> through, and \<open>getNearbyMetros\<close>
  returns it, with state code \<open>GA\<close>.
\<close>

theorem nearby_metros_other_state:
  "getMetroCodeForZip Healthy upperTable (str ''36602'') =
     Some \<lparr>cbsaCode = str ''33660'', cbsaName = str ''MOBILE, AL'', cityName = str ''MOBILE'',
           stateCode = str ''AL'', residentialRatio = 1, isSplitZip = False\<rparr>
   \<and> getNearbyMetros Healthy Healthy upperTable (str ''36602'') 5 =
     [\<lparr>cbsaCode = str ''10500'', cbsaName = str ''ALBANY, GA'', cityName = str ''ALBANY'',
       stateCode = str ''GA'', residentialRatio = 1, isSplitZip = False\<rparr>]"
  using upper_primary upper_nearby by (rule conjI)

text \<open>
  Claim C6 at a ZIP with two rows of ratios 0.7 and 0.3: the 0.7 row is the primary metro and
  \<open>isSplitZip\<close> is true; a ZIP without rows resolves to \<open>null\<close>.
\<close>

theorem metro_resolver_primary_witness:
  "filter (\<lambda>row. zip_code row = str ''03049'') exampleTable \<noteq> []
   \<and> getMetroCodeForZip Healthy exampleTable (str ''03049'') =
     Some \<lparr>cbsaCode = str ''14460'', cbsaName = str ''Boston-Cambridge, MA-NH'',
           cityName = str ''Boston-Cambridge'', stateCode = str ''MA-NH'',
           residentialRatio = 0.7, isSplitZip = True\<rparr>
   \<and> getMetroCodeForZip Healthy exampleTable (str ''99999'') = None"
proof -
  have ne: "filter (\<lambda>row. zip_code row = str ''03049'') exampleTable \<noteq> []"
    by (simp add: exampleTable_def)
  have none: "filter (\<lambda>row. zip_code row = str ''99999'') exampleTable = []"
    by (simp add: exampleTable_def)
  have "getMetroCodeForZip Healthy exampleTable (str ''99999'') = None"
    using metro_resolver_primary[OF refl, of "str ''99999''" exampleTable] none by blast
  then show ?thesis using ne example_resolve by simp
qed

lemma split_examples:
  "splitComma (str ''Manchester-Nashua, NH'') = [str ''Manchester-Nashua'', str '' NH'']"
  "splitComma (str ''Concord, NH'') = [str ''Concord'', str '' NH'']"
  by code_simp+

lemma trim_examples:
  "trim (str ''Manchester-Nashua'') = str ''Manchester-Nashua''" "trim (str '' NH'') = str ''NH''"
  "trim (str ''Concord'') = str ''Concord''"
  by code_simp+

lemma like_examples:
  "likeMatch (str ''%NH%'') (str ''Manchester-Nashua, NH'')"
  "likeMatch (str ''%NH%'') (str ''Boston-Cambridge, MA-NH'')"
  "likeMatch (str ''%NH%'') (str ''Concord, NH'')"
  by code_simp+

lemma example_primary_concord:
  "getMetroCodeForZip Healthy exampleTable (str ''03301'') =
     Some \<lparr>cbsaCode = str ''18180'', cbsaName = str ''Concord, NH'', cityName = str ''Concord'',
           stateCode = str ''NH'', residentialRatio = 1, isSplitZip = False\<rparr>"
  by (simp add: getMetroCodeForZip_def exampleTable_def orderByRatioDesc_def
      toCrosswalkResult_def split_examples trim_examples part_def orElse_def Let_def)

lemma example_candidates:
  "nearbyCandidates exampleTable
     \<lparr>cbsaCode = str ''18180'', cbsaName = str ''Concord, NH'', cityName = str ''Concord'',
           stateCode = str ''NH'', residentialRatio = 1, isSplitZip = False\<rparr> =
     [\<lparr>zip_code = str ''03049'', cbsa_code = str ''14460'', cbsa_name = str ''Boston-Cambridge, MA-NH'',
      residential_ratio = 0.7\<rparr>,
      \<lparr>zip_code = str ''03049'', cbsa_code = str ''31700'', cbsa_name = str ''Manchester-Nashua, NH'',
      residential_ratio = 0.3\<rparr>]"
  by (simp add: nearbyCandidates_def exampleTable_def orderByRatioDesc_def like_examples)

lemma example_nearby:
  "getNearbyMetros Healthy Healthy exampleTable (str ''03301'') 5 =
     [\<lparr>cbsaCode = str ''14460'', cbsaName = str ''Boston-Cambridge, MA-NH'',
       cityName = str ''Boston-Cambridge'', stateCode = str ''MA-NH'',
       residentialRatio = 0.7, isSplitZip = False\<rparr>,
      \<lparr>cbsaCode = str ''31700'', cbsaName = str ''Manchester-Nashua, NH'',
       cityName = str ''Manchester-Nashua'', stateCode = str ''NH'',
       residentialRatio = 0.3, isSplitZip = False\<rparr>]"
proof -
  have "getNearbyMetros Healthy Healthy exampleTable (str ''03301'') 5 =
      snd (foldl (nearbyStep 5) ([], [])
        (take (5 * 3)
          [\<lparr>zip_code = str ''03049'', cbsa_code = str ''14460'', cbsa_name = str ''Boston-Cambridge, MA-NH'',
            residential_ratio = 0.7\<rparr>,
           \<lparr>zip_code = str ''03049'', cbsa_code = str ''31700'', cbsa_name = str ''Manchester-Nashua, NH'',
            residential_ratio = 0.3\<rparr>]))"
    by (simp only: getNearbyMetros_def example_primary_concord example_candidates option.case
        storeStatus.case)
  then show ?thesis
    by (simp add: nearbyStep_def toCrosswalkResult_def split_boston trim_boston split_examples
        trim_examples part_def orElse_def Let_def)
qed

lemma getNearbyMetros_example:
  "getNearbyMetros Healthy Healthy exampleTable (str ''03301'') 5 =
     [\<lparr>cbsaCode = str ''14460'', cbsaName = str ''Boston-Cambridge, MA-NH'',
       cityName = str ''Boston-Cambridge'', stateCode = str ''MA-NH'',
       residentialRatio = 0.7, isSplitZip = False\<rparr>,
      \<lparr>cbsaCode = str ''31700'', cbsaName = str ''Manchester-Nashua, NH'',
       cityName = str ''Manchester-Nashua'', stateCode = str ''NH'',
       residentialRatio = 0.3, isSplitZip = False\<rparr>]
   \<and> distinct (map cbsaCode (getNearbyMetros Healthy Healthy exampleTable (str ''03301'') 5))
   \<and> length (getNearbyMetros Healthy Healthy exampleTable (str ''03301'') 5) \<le> 5
   \<and> getNearbyMetros Healthy Healthy exampleTable (str ''99999'') 5 = []"
proof -
  have none: "getMetroCodeForZip Healthy exampleTable (str ''99999'') = None"
    by (simp add: getMetroCodeForZip_def exampleTable_def orderByRatioDesc_def)
  note inst = getNearbyMetros_guarantees[OF example_primary_concord refl refl, of 5]
  have d: "distinct (map cbsaCode (getNearbyMetros Healthy Healthy exampleTable (str ''03301'') 5))"
    using inst by blast
  have l: "length (getNearbyMetros Healthy Healthy exampleTable (str ''03301'') 5) \<le> 5"
    using inst by blast
  have e: "getNearbyMetros Healthy Healthy exampleTable (str ''99999'') 5 = []"
    using inst none by blast
  show ?thesis using example_nearby d l e by (intro conjI)
qed

lemma fetchFairMarketRents_started:
  "snd (snd (fetchFairMarketRents env zipcode (db, started))) = started @ [zipcode]"
  by (simp add: fetchFairMarketRents_def Let_def split: option.splits sum.splits)

lemma fetchFairMarketRents_invalid:
  "\<not> validateZipCode zipcode \<Longrightarrow>
   fetchFairMarketRents env zipcode (db, started) =
     (Inl (InvalidZipFormat zipcode), db, started @ [zipcode])"
  by (simp add: fetchFairMarketRents_def)

lemma toBatchItem_settled:
  "itemSettled (toBatchItem zipcode outcome)"
  "FMRBatchItem.zipCode (toBatchItem zipcode outcome) = zipcode"
  by (cases outcome; simp add: toBatchItem_def itemSettled_def)+

lemma fetchMultiple_items:
  assumes "fetchMultipleFairMarketRents env zips (db, started) = (items, db', started')"
  shows "map FMRBatchItem.zipCode items = zips \<and> list_all itemSettled items
       \<and> started' = started @ zips"
  using assms
proof (induction zips arbitrary: db started items db' started')
  case Nil
  then show ?case by simp
next
  case (Cons zipcode zips)
  obtain outcome db1 started1 where
    one: "fetchFairMarketRents env zipcode (db, started) = (outcome, db1, started1)"
    by (metis prod_cases3)
  obtain items2 db2 started2 where
    more: "fetchMultipleFairMarketRents env zips (db1, started1) = (items2, db2, started2)"
    by (metis prod_cases3)
  have s1: "started1 = started @ [zipcode]"
    using fetchFairMarketRents_started[of env zipcode db started] one by simp
  have ih: "map FMRBatchItem.zipCode items2 = zips \<and> list_all itemSettled items2
       \<and> started2 = started1 @ zips"
    using more by (rule Cons.IH)
  have "items = toBatchItem zipcode outcome # items2" and "started' = started2"
    using Cons.prems one more by simp_all
  then show ?case using ih s1 by (simp add: toBatchItem_settled)
qed

lemma fetchMultiple_total:
  "\<exists>items db' . fetchMultipleFairMarketRents env zips (db, started) = (items, db', started @ zips)
      \<and> map FMRBatchItem.zipCode items = zips \<and> list_all itemSettled items"
proof -
  obtain items db' started' where
    r: "fetchMultipleFairMarketRents env zips (db, started) = (items, db', started')"
    by (metis prod_cases3)
  then show ?thesis using fetchMultiple_items[OF r] by auto
qed

lemma length_map_filter_all:
  "\<forall>x \<in> set xs. f x \<noteq> None \<Longrightarrow> length (List.map_filter f xs) = length xs"
  by (induction xs) (auto simp: List.map_filter_simps)

lemma length_filter_split:
  "length (filter P xs) + length (filter (\<lambda>x. \<not> P x) xs) = length xs"
  by (induction xs) simp_all

lemma invalid_zips_iff:
  "(length (filter (\<lambda>z. \<not> validateZipCode z) zips) > 0) = (\<not> list_all validateZipCode zips)"
  by (induction zips) simp_all

lemma GET_zip_branch:
  assumes "z \<noteq> []" and "\<not> given stateParam"
  shows "GET env (Some z) stateParam world =
     (let zipCodes = map trim (splitComma z)
      in if \<not> list_all validateZipCode zipCodes then (ErrorResponse ''INVALID_ZIP'' 400, world)
         else if length zipCodes = 1 then (SingleZipRequest (hd zipCodes), world)
         else if length zipCodes > 20 then (ErrorResponse ''TOO_MANY_ZIPS'' 400, world)
         else
           (case fetchMultipleFairMarketRents env zipCodes world of
              (results, world') \<Rightarrow>
                (BatchResponse
                   (List.map_filter FMRBatchItem.data
                      (filter (\<lambda>r. FMRBatchItem.data r \<noteq> None) results))
                   (length zipCodes)
                   (length (filter (\<lambda>r. FMRBatchItem.data r \<noteq> None) results))
                   (length (filter (\<lambda>r. FMRBatchItem.data r = None) results))
                   (map (\<lambda>f. (FMRBatchItem.zipCode f, error f))
                      (filter (\<lambda>r. FMRBatchItem.data r = None) results)),
                 world')))"
  using assms
  by (simp add: GET_def given_def textOf_def Let_def invalid_zips_iff del: length_greater_0_conv)

text \<open>
  Claim C7 (as amended).  For a request whose \<open>zip\<close> parameter lists ZIP codes (and no
  state): when the ZIPs are 2 to 20 and all well-formed, one lookup is started per ZIP, the
  batch gives one settled item per ZIP in their order, and the response is the batch envelope
  with \<open>success: true\<close>, the rent records of the items with data, the errors of the others,
  and counts that add up to the number of ZIPs.  When a ZIP is malformed the whole request is
  answered with \<open>INVALID_ZIP\<close> (400), and when the ZIPs are well-formed and more than 20
  with \<open>TOO_MANY_ZIPS\<close> (400), in both cases with no lookup started and the cache
  untouched.  The ZIPs are the pieces of the parameter between its commas, each without the
  white space at its ends.
\<close>

theorem batch_rent_request:
  assumes z: "z \<noteq> []" and nostate: "\<not> given stateParam"
    and zc: "zipCodes = map trim (splitComma z)"
  shows
   "(list_all validateZipCode zipCodes \<and> 2 \<le> length zipCodes \<and> length zipCodes \<le> 20 \<longrightarrow>
       (\<exists>items db'.
          fetchMultipleFairMarketRents env zipCodes (db, started)
            = (items, db', started @ zipCodes)
        \<and> map FMRBatchItem.zipCode items = zipCodes
        \<and> list_all itemSettled items
        \<and> GET env (Some z) stateParam (db, started) =
             (BatchResponse
                (List.map_filter FMRBatchItem.data
                   (filter (\<lambda>r. FMRBatchItem.data r \<noteq> None) items))
                (length zipCodes)
                (length (filter (\<lambda>r. FMRBatchItem.data r \<noteq> None) items))
                (length (filter (\<lambda>r. FMRBatchItem.data r = None) items))
                (map (\<lambda>f. (FMRBatchItem.zipCode f, error f))
                   (filter (\<lambda>r. FMRBatchItem.data r = None) items)),
              db', started @ zipCodes)
        \<and> length (filter (\<lambda>r. FMRBatchItem.data r \<noteq> None) items)
            + length (filter (\<lambda>r. FMRBatchItem.data r = None) items) = length zipCodes
        \<and> success (fst (GET env (Some z) stateParam (db, started)))))
  \<and> (\<not> list_all validateZipCode zipCodes \<longrightarrow>
        GET env (Some z) stateParam (db, started)
          = (ErrorResponse ''INVALID_ZIP'' 400, (db, started)))
  \<and> (list_all validateZipCode zipCodes \<and> length zipCodes > 20 \<longrightarrow>
        GET env (Some z) stateParam (db, started)
          = (ErrorResponse ''TOO_MANY_ZIPS'' 400, (db, started)))"
proof (intro conjI impI)
  assume ok: "list_all validateZipCode zipCodes \<and> 2 \<le> length zipCodes \<and> length zipCodes \<le> 20"
  obtain items db' where
    run: "fetchMultipleFairMarketRents env zipCodes (db, started)
            = (items, db', started @ zipCodes)"
    and names: "map FMRBatchItem.zipCode items = zipCodes"
    and settled: "list_all itemSettled items"
    using fetchMultiple_total[of env zipCodes db started] by blast
  have resp: "GET env (Some z) stateParam (db, started) =
             (BatchResponse
                (List.map_filter FMRBatchItem.data
                   (filter (\<lambda>r. FMRBatchItem.data r \<noteq> None) items))
                (length zipCodes)
                (length (filter (\<lambda>r. FMRBatchItem.data r \<noteq> None) items))
                (length (filter (\<lambda>r. FMRBatchItem.data r = None) items))
                (map (\<lambda>f. (FMRBatchItem.zipCode f, error f))
                   (filter (\<lambda>r. FMRBatchItem.data r = None) items)),
              db', started @ zipCodes)"
    using ok run unfolding GET_zip_branch[OF z nostate] zc[symmetric] Let_def by simp
  have "length items = length zipCodes" using names by (metis length_map)
  then have count: "length (filter (\<lambda>r. FMRBatchItem.data r \<noteq> None) items)
            + length (filter (\<lambda>r. FMRBatchItem.data r = None) items) = length zipCodes"
    using length_filter_split[of "\<lambda>r. FMRBatchItem.data r \<noteq> None" items] by simp
  have succ: "success (fst (GET env (Some z) stateParam (db, started)))"
    by (simp add: resp success_def)
  show "\<exists>items db'.
          fetchMultipleFairMarketRents env zipCodes (db, started)
            = (items, db', started @ zipCodes)
        \<and> map FMRBatchItem.zipCode items = zipCodes
        \<and> list_all itemSettled items
        \<and> GET env (Some z) stateParam (db, started) =
             (BatchResponse
                (List.map_filter FMRBatchItem.data
                   (filter (\<lambda>r. FMRBatchItem.data r \<noteq> None) items))
                (length zipCodes)
                (length (filter (\<lambda>r. FMRBatchItem.data r \<noteq> None) items))
                (length (filter (\<lambda>r. FMRBatchItem.data r = None) items))
                (map (\<lambda>f. (FMRBatchItem.zipCode f, error f))
                   (filter (\<lambda>r. FMRBatchItem.data r = None) items)),
              db', started @ zipCodes)
        \<and> length (filter (\<lambda>r. FMRBatchItem.data r \<noteq> None) items)
            + length (filter (\<lambda>r. FMRBatchItem.data r = None) items) = length zipCodes
        \<and> success (fst (GET env (Some z) stateParam (db, started)))"
    using run names settled resp count succ by blast
next
  assume "\<not> list_all validateZipCode zipCodes"
  then show "GET env (Some z) stateParam (db, started)
          = (ErrorResponse ''INVALID_ZIP'' 400, (db, started))"
    unfolding GET_zip_branch[OF z nostate] zc[symmetric] Let_def by simp
next
  assume "list_all validateZipCode zipCodes \<and> length zipCodes > 20"
  then show "GET env (Some z) stateParam (db, started)
          = (ErrorResponse ''TOO_MANY_ZIPS'' 400, (db, started))"
    unfolding GET_zip_branch[OF z nostate] zc[symmetric] Let_def by simp
qed

lemma split_batch:
  "map trim (splitComma (str ''03049,99999'')) = [str ''03049'', str ''99999'']"
  "map trim (splitComma (str ''90210,abc,10001'')) = [str ''90210'', str ''abc'', str ''10001'']"
  by code_simp+

lemma validate_examples:
  "validateZipCode (str ''03049'')" "validateZipCode (str ''99999'')" "validateZipCode (str ''90210'')"
  "\<not> validateZipCode (str ''abc'')" "validateZipCode (str ''10001'')"
  by code_simp+

lemma example_malformed:
  "GET exampleHudEnv (Some (str ''90210,abc,10001'')) None (Map.empty, []) =
     (ErrorResponse ''INVALID_ZIP'' 400, (Map.empty, []))"
proof -
  have z: "str ''90210,abc,10001'' \<noteq> []" by simp
  have s: "\<not> given None" by (simp add: given_def)
  have v: "\<not> list_all validateZipCode [str ''90210'', str ''abc'', str ''10001'']"
    by (simp add: validate_examples)
  show ?thesis
    unfolding GET_zip_branch[OF z s] split_batch Let_def using v by simp
qed

text \<open>
  Claim C7 as stated fails: a batch of three ZIPs of which one is malformed is rejected as a
  whole, with \<open>success: false\<close>.
\<close>

theorem batch_rent_malformed_counterexample:
  "GET exampleHudEnv (Some (str ''90210,abc,10001'')) None (Map.empty, []) =
     (ErrorResponse ''INVALID_ZIP'' 400, (Map.empty, []))
   \<and> \<not> success (fst (GET exampleHudEnv (Some (str ''90210,abc,10001'')) None (Map.empty, [])))"
  by (simp add: example_malformed success_def)

lemma example_lookup_boston:
  "fetchFairMarketRents exampleHudEnv (str ''03049'') (Map.empty, []) =
     (Inr bostonRent,
      [(HUD, str ''zip:03049'') \<mapsto>
         \<lparr>data = Some bostonRent, created_at = Time 1000, expires_at = Time 2592001000\<rparr>],
      [str ''03049''])"
  by (simp add: fetchFairMarketRents_def validate_examples exampleHudEnv_def getCachedData_def
      getCachedData_try_def isValidAPISource_def selectSingle_def example_resolve
      fetchFMRByCBSA_def toFairMarketRent_def bostonAttrs_def bostonRent_def orElse_def
      orZero_def setCachedData_def CACHE_TTL_HOURS_def validDate_def Let_def)

lemma example_lookup_unknown:
  "fetchFairMarketRents exampleHudEnv (str ''99999'')
     ([(HUD, str ''zip:03049'') \<mapsto>
         \<lparr>data = Some bostonRent, created_at = Time 1000, expires_at = Time 2592001000\<rparr>],
      [str ''03049'']) =
     (Inl (ZipNotFound (str ''99999'')),
      [(HUD, str ''zip:03049'') \<mapsto>
         \<lparr>data = Some bostonRent, created_at = Time 1000, expires_at = Time 2592001000\<rparr>],
      [str ''03049'', str ''99999''])"
proof -
  have none: "getMetroCodeForZip Healthy exampleTable (str ''99999'') = None"
    by (simp add: getMetroCodeForZip_def exampleTable_def orderByRatioDesc_def)
  show ?thesis
    by (simp add: fetchFairMarketRents_def validate_examples exampleHudEnv_def getCachedData_def
        getCachedData_try_def isValidAPISource_def selectSingle_def none)
qed

lemma example_batch_items:
  "fetchMultipleFairMarketRents exampleHudEnv [str ''03049'', str ''99999''] (Map.empty, []) =
     ([\<lparr>FMRBatchItem.zipCode = str ''03049'', data = Some bostonRent, error = None\<rparr>,
       \<lparr>FMRBatchItem.zipCode = str ''99999'', data = None, error = Some (ZipNotFound (str ''99999''))\<rparr>],
      [(HUD, str ''zip:03049'') \<mapsto>
         \<lparr>data = Some bostonRent, created_at = Time 1000, expires_at = Time 2592001000\<rparr>],
      [str ''03049'', str ''99999''])"
proof -
  have "fetchMultipleFairMarketRents exampleHudEnv [str ''03049'', str ''99999''] (Map.empty, []) =
     (case fetchFairMarketRents exampleHudEnv (str ''03049'') (Map.empty, []) of
        (outcome, world1) \<Rightarrow>
          (case (case fetchFairMarketRents exampleHudEnv (str ''99999'') world1 of
                   (outcome2, world2) \<Rightarrow> ([toBatchItem (str ''99999'') outcome2], world2)) of
             (items, world2) \<Rightarrow> (toBatchItem (str ''03049'') outcome # items, world2)))"
    by (simp split: prod.splits)
  then show ?thesis
    unfolding example_lookup_boston prod.case example_lookup_unknown
    by (simp add: toBatchItem_def)
qed

lemma example_batch_response:
  assumes "map trim (splitComma z) = [str ''03049'', str ''99999'']"
  shows "GET exampleHudEnv (Some z) None (Map.empty, []) =
     (BatchResponse [bostonRent] 2 1 1 [(str ''99999'', Some (ZipNotFound (str ''99999'')))],
      [(HUD, str ''zip:03049'') \<mapsto>
         \<lparr>data = Some bostonRent, created_at = Time 1000, expires_at = Time 2592001000\<rparr>],
      [str ''03049'', str ''99999''])"
proof -
  have z: "z \<noteq> []" using assms by auto
  have s: "\<not> given None" by (simp add: given_def)
  have v: "list_all validateZipCode [str ''03049'', str ''99999'']"
    by (simp add: validate_examples)
  show ?thesis
    unfolding GET_zip_branch[OF z s] assms Let_def example_batch_items using v
    by (simp add: List.map_filter_simps)
qed

lemma split_padded:
  "map trim (splitComma (str '' 03049,'' @ [0x00A0] @ str ''99999''))
     = [str ''03049'', str ''99999'']"
  by code_simp

text \<open>
  The amended claim C7 at a batch of two ZIPs, one of which is not in the crosswalk table: one
  rent record, one per-item error, \<open>success: true\<close>; and the same for the parameter with a
  space before the first ZIP and a no-break space (U+00A0) before the second.
\<close>

theorem batch_rent_request_witness:
  "success (fst (GET exampleHudEnv (Some (str ''03049,99999'')) None (Map.empty, [])))
   \<and> GET exampleHudEnv (Some (str ''03049,99999'')) None (Map.empty, []) =
     (BatchResponse [bostonRent] 2 1 1 [(str ''99999'', Some (ZipNotFound (str ''99999'')))],
      [(HUD, str ''zip:03049'') \<mapsto>
         \<lparr>data = Some bostonRent, created_at = Time 1000, expires_at = Time 2592001000\<rparr>],
      [str ''03049'', str ''99999''])
   \<and> success (fst (GET exampleHudEnv (Some (str '' 03049,'' @ [0x00A0] @ str ''99999'')) None
                     (Map.empty, [])))
   \<and> GET exampleHudEnv (Some (str '' 03049,'' @ [0x00A0] @ str ''99999'')) None (Map.empty, []) =
     (BatchResponse [bostonRent] 2 1 1 [(str ''99999'', Some (ZipNotFound (str ''99999'')))],
      [(HUD, str ''zip:03049'') \<mapsto>
         \<lparr>data = Some bostonRent, created_at = Time 1000, expires_at = Time 2592001000\<rparr>],
      [str ''03049'', str ''99999''])"
proof -
  have s: "\<not> given None" by (simp add: given_def)
  have ok: "list_all validateZipCode [str ''03049'', str ''99999'']
      \<and> 2 \<le> length [str ''03049'', str ''99999''] \<and> length [str ''03049'', str ''99999''] \<le> 20"
    by (simp add: validate_examples)
  have z1: "str ''03049,99999'' \<noteq> []" by simp
  have s1: "success (fst (GET exampleHudEnv (Some (str ''03049,99999'')) None (Map.empty, [])))"
    using batch_rent_request[OF z1 s split_batch(1)[symmetric],
        of exampleHudEnv Map.empty "[]"] ok by blast
  have z2: "str '' 03049,'' @ [0x00A0] @ str ''99999'' \<noteq> []" by (simp add: str_def)
  have s2: "success (fst (GET exampleHudEnv (Some (str '' 03049,'' @ [0x00A0] @ str ''99999''))
      None (Map.empty, [])))"
    using batch_rent_request[OF z2 s split_padded[symmetric],
        of exampleHudEnv Map.empty "[]"] ok by blast
  show ?thesis
    using s1 example_batch_response[OF split_batch(1)] s2 example_batch_response[OF split_padded]
    by (intro conjI)
qed

lemma fetchFn_some_iff:
  "(getEnergyPricesByState_fetchFn e g p st y m \<noteq> None)
     = (priceIn e st \<noteq> None \<or> priceIn p st \<noteq> None)"
  by (auto simp: getEnergyPricesByState_fetchFn_def Let_def)

lemma fetchFn_fields:
  assumes "getEnergyPricesByState_fetchFn e g p st y m = Some r"
  shows "electricityPrice r = priceIn e st" "naturalGasPrice r = priceIn g st"
    "gasolinePrice r = priceIn p st" "EnergyPrices.stateCode r = st"
  using assms
  by (auto simp: getEnergyPricesByState_fetchFn_def Let_def split: if_splits)

lemma getEnergyPricesByState_miss:
  assumes "isStateCode (toUpperCase code)"
    and "getCachedData_api (eia_readEnv env) db EIA
           (generateCacheKey (apiSourceText EIA) ''energy-state''
              (stateParams (toUpperCase code))) = None"
  shows "fst (getEnergyPricesByState env code db) =
     Inr \<lparr>resultData = getEnergyPricesByState_fetchFn (eia_electricity env)
                          (eia_naturalGas env) (eia_gasoline env) (toUpperCase code)
                          (eia_fullYear env) (eia_monthIndex env),
          cached = False, cacheAge = None\<rparr>"
  using assms by (simp add: getEnergyPricesByState_def withCache_def Let_def)

text \<open>
  Claim C8.  The record built from the three settled sub-fetches is not \<open>null\<close> exactly when
  the electricity price or the gasoline price of the state is present.  Each price field of
  the record is the state's entry in the sub-fetch's data: \<open>undefined\<close> when the sub-fetch was
  rejected, had no data, or has no entry for the state.  With electricity and gasoline present
  and natural gas missing, the record exists and its \<open>naturalGasPrice\<close> is \<open>undefined\<close>.  For a
  two-letter state code and a cache miss, \<open>getEnergyPricesByState\<close> returns that record,
  not cached.
\<close>

theorem energy_prices_partial:
  "((getEnergyPricesByState_fetchFn e g p st y m \<noteq> None)
      = (priceIn e st \<noteq> None \<or> priceIn p st \<noteq> None))
   \<and> (\<forall>r. getEnergyPricesByState_fetchFn e g p st y m = Some r \<longrightarrow>
          electricityPrice r = priceIn e st \<and> naturalGasPrice r = priceIn g st
        \<and> gasolinePrice r = priceIn p st)
   \<and> priceIn Rejected st = None
   \<and> priceIn (Fulfilled None) st = None
   \<and> (\<forall>prices. priceIn (Fulfilled (Some prices)) st = map_of prices st)
   \<and> (priceIn e st \<noteq> None \<and> priceIn p st \<noteq> None \<and> priceIn g st = None \<longrightarrow>
        (\<exists>r. getEnergyPricesByState_fetchFn e g p st y m = Some r
             \<and> naturalGasPrice r = None))
   \<and> (isStateCode (toUpperCase code)
        \<and> getCachedData_api (eia_readEnv env) db EIA
             (generateCacheKey (apiSourceText EIA) ''energy-state''
                (stateParams (toUpperCase code))) = None
        \<longrightarrow> fst (getEnergyPricesByState env code db) =
             Inr \<lparr>resultData = getEnergyPricesByState_fetchFn (eia_electricity env)
                          (eia_naturalGas env) (eia_gasoline env) (toUpperCase code)
                          (eia_fullYear env) (eia_monthIndex env),
                  cached = False, cacheAge = None\<rparr>)"
proof (intro conjI allI impI)
  show "(getEnergyPricesByState_fetchFn e g p st y m \<noteq> None)
      = (priceIn e st \<noteq> None \<or> priceIn p st \<noteq> None)"
    by (rule fetchFn_some_iff)
next
  fix r assume "getEnergyPricesByState_fetchFn e g p st y m = Some r"
  then show "electricityPrice r = priceIn e st" "naturalGasPrice r = priceIn g st"
    "gasolinePrice r = priceIn p st"
    by (rule fetchFn_fields)+
next
  show "priceIn Rejected st = None" "priceIn (Fulfilled None) st = None"
    by (simp_all add: priceIn_def)
next
  fix prices show "priceIn (Fulfilled (Some prices)) st = map_of prices st"
    by (simp add: priceIn_def)
next
  assume a: "priceIn e st \<noteq> None \<and> priceIn p st \<noteq> None \<and> priceIn g st = None"
  then have "getEnergyPricesByState_fetchFn e g p st y m \<noteq> None"
    using fetchFn_some_iff by blast
  then obtain r where r: "getEnergyPricesByState_fetchFn e g p st y m = Some r" by blast
  then have "naturalGasPrice r = None" using fetchFn_fields(2)[OF r] a by simp
  then show "\<exists>r. getEnergyPricesByState_fetchFn e g p st y m = Some r \<and> naturalGasPrice r = None"
    using r by blast
next
  assume "isStateCode (toUpperCase code)
        \<and> getCachedData_api (eia_readEnv env) db EIA
             (generateCacheKey (apiSourceText EIA) ''energy-state''
                (stateParams (toUpperCase code))) = None"
  then show "fst (getEnergyPricesByState env code db) =
             Inr \<lparr>resultData = getEnergyPricesByState_fetchFn (eia_electricity env)
                          (eia_naturalGas env) (eia_gasoline env) (toUpperCase code)
                          (eia_fullYear env) (eia_monthIndex env),
                  cached = False, cacheAge = None\<rparr>"
    using getEnergyPricesByState_miss by blast
qed

lemma upper_ca: "toUpperCase ''ca'' = ''CA''"
  by code_simp

lemma state_ca: "isStateCode ''CA''"
  by code_simp

lemma name_ca: "map_of STATE_CODE_TO_NAME ''CA'' = Some ''California''"
  by code_simp

lemma example_energy:
  "getEnergyPricesByState_fetchFn (Fulfilled (Some [(''CA'', 30), (''TX'', 15)])) Rejected
     (Fulfilled (Some [(''CA'', 5), (''TX'', 3)])) ''CA'' 2026 10 =
     Some \<lparr>EnergyPrices.stateCode = ''CA'', EnergyPrices.stateName = ''California'',
           EnergyPrices.year = 2026, month = 11,
           electricityPrice = Some 30, naturalGasPrice = None, gasolinePrice = Some 5,
           electricityNationalAvg = 45 / 2, naturalGasNationalAvg = None,
           gasolineNationalAvg = Some 4,
           electricityIndex = Some (400 / 3), naturalGasIndex = None,
           gasolineIndex = Some 125\<rparr>"
  by (simp add: getEnergyPricesByState_fetchFn_def priceIn_def averageOf_def pricesOf_def
      indexOf_def name_ca orElse_def Let_def)

text \<open>
  Claim C8 at a request for \<open>ca\<close> with electricity and gasoline data and a rejected natural
  gas fetch, and at sub-fetches that give neither electricity nor gasoline.
\<close>

theorem energy_prices_partial_witness:
  "fst (getEnergyPricesByState exampleEiaEnv ''ca'' Map.empty) =
     Inr \<lparr>resultData =
            Some \<lparr>EnergyPrices.stateCode = ''CA'', EnergyPrices.stateName = ''California'',
                  EnergyPrices.year = 2026, month = 11,
                  electricityPrice = Some 30, naturalGasPrice = None, gasolinePrice = Some 5,
                  electricityNationalAvg = 45 / 2, naturalGasNationalAvg = None,
                  gasolineNationalAvg = Some 4,
                  electricityIndex = Some (400 / 3), naturalGasIndex = None,
                  gasolineIndex = Some 125\<rparr>,
          cached = False, cacheAge = None\<rparr>
   \<and> getEnergyPricesByState_fetchFn Rejected (Fulfilled (Some [(''CA'', 12)])) Rejected
        ''CA'' 2026 10 = None"
proof -
  note inst = energy_prices_partial[where e = Rejected and g = "Fulfilled (Some [(''CA'', 12)])"
      and p = Rejected and st = "''CA''" and y = 2026 and m = 10
      and code = "''ca''" and env = exampleEiaEnv and db = Map.empty]
  have valid: "isStateCode (toUpperCase ''ca'')"
    by (simp only: upper_ca state_ca)
  have miss: "getCachedData_api (eia_readEnv exampleEiaEnv) Map.empty EIA
             (generateCacheKey (apiSourceText EIA) ''energy-state''
                (stateParams (toUpperCase ''ca''))) = None"
    by (simp add: getCachedData_api_def getCachedData_api_try_def selectSingle_def
        exampleEiaEnv_def healthyAt_def)
  have "fst (getEnergyPricesByState exampleEiaEnv ''ca'' Map.empty) =
             Inr \<lparr>resultData = getEnergyPricesByState_fetchFn (eia_electricity exampleEiaEnv)
                          (eia_naturalGas exampleEiaEnv) (eia_gasoline exampleEiaEnv)
                          (toUpperCase ''ca'')
                          (eia_fullYear exampleEiaEnv) (eia_monthIndex exampleEiaEnv),
                  cached = False, cacheAge = None\<rparr>"
    using inst valid miss by blast
  then have first: "fst (getEnergyPricesByState exampleEiaEnv ''ca'' Map.empty) =
     Inr \<lparr>resultData =
            Some \<lparr>EnergyPrices.stateCode = ''CA'', EnergyPrices.stateName = ''California'',
                  EnergyPrices.year = 2026, month = 11,
                  electricityPrice = Some 30, naturalGasPrice = None, gasolinePrice = Some 5,
                  electricityNationalAvg = 45 / 2, naturalGasNationalAvg = None,
                  gasolineNationalAvg = Some 4,
                  electricityIndex = Some (400 / 3), naturalGasIndex = None,
                  gasolineIndex = Some 125\<rparr>,
          cached = False, cacheAge = None\<rparr>"
    by (simp add: exampleEiaEnv_def upper_ca example_energy)
  have "priceIn Rejected ''CA'' = None" using inst by blast
  then have second: "getEnergyPricesByState_fetchFn Rejected (Fulfilled (Some [(''CA'', 12)]))
        Rejected ''CA'' 2026 10 = None"
    using inst by blast
  show ?thesis using first second by (rule conjI)
qed

end
